theory Spec2Isabelle
  imports
    Main
    "HOL-Library.FSet"
    "HOL-Library.Char_ord"
    "HOL-Library.List_Lexorder"
    "HOL-Library.AList"
    "HOL-Library.Sublist"
begin

section \<open>Python strings\<close>

text \<open>
  A Python \<open>str\<close> is modelled as a \<open>string\<close> whose characters are the code points
  below 256. \<open>isspace\<close> is \<open>str.isspace\<close> on that range: TAB, LF, VT, FF, CR, the
  separators 0x1C to 0x1F, the blank, NEL (0x85) and the no-break space (0xA0).
\<close>

definition isspace :: "char \<Rightarrow> bool" where
  "isspace c = (c \<in> set [CHR 0x09, CHR 0x0A, CHR 0x0B, CHR 0x0C, CHR 0x0D,
                           CHR 0x1C, CHR 0x1D, CHR 0x1E, CHR 0x1F, CHR 0x20,
                           CHR 0x85, CHR 0xA0])"

text \<open>
  \<open>s.split()\<close>: the maximal runs of characters that are not white space, in order.
  \<open>split_from w s\<close> scans \<open>s\<close> with the token \<open>w\<close> read so far.
\<close>

fun split_from :: "string \<Rightarrow> string \<Rightarrow> string list" where
  "split_from w [] = (if w = [] then [] else [w])"
| "split_from w (c # cs) =
     (if isspace c then (if w = [] then split_from [] cs else w # split_from [] cs)
      else split_from (w @ [c]) cs)"

definition py_split :: "string \<Rightarrow> string list" where
  "py_split s = split_from [] s"

text \<open>\<open>s.lstrip(chars)\<close> and \<open>s.strip()\<close>.\<close>

definition lstrip :: "string \<Rightarrow> string \<Rightarrow> string" where
  "lstrip chars s = dropWhile (\<lambda>c. c \<in> set chars) s"

definition strip :: "string \<Rightarrow> string" where
  "strip s = rev (dropWhile isspace (rev (dropWhile isspace s)))"

text \<open>\<open>s.startswith(p)\<close>, \<open>s.endswith(p)\<close>, \<open>s[:-n]\<close> and \<open>s.replace(a, b)\<close> for
  single characters.\<close>

definition startswith :: "string \<Rightarrow> string \<Rightarrow> bool" where
  "startswith s p = (take (length p) s = p)"

definition endswith :: "string \<Rightarrow> string \<Rightarrow> bool" where
  "endswith s p = (length p \<le> length s \<and> drop (length s - length p) s = p)"

definition drop_last :: "nat \<Rightarrow> string \<Rightarrow> string" where
  "drop_last n s = take (length s - n) s"

definition replace_char :: "char \<Rightarrow> char \<Rightarrow> string \<Rightarrow> string" where
  "replace_char a b s = map (\<lambda>c. if c = a then b else c) s"

section \<open>Exceptions and observable effects\<close>

datatype error =
    AssertionError string
  | IndexError
  | KeyError string
  | ValueError
  | TypeError
  | AttributeError
  | NoResultFound
  | OverflowError
  | SystemExit int

section \<open>Reading the input files (the \<open>try\<close> block of \<open>gamaficer\<close>)\<close>

text \<open>An open text file: its name and the lines its iteration yields.\<close>

record tekstfil =
  name :: string
  linjer :: "string list"

text \<open>
  The inner loop \<open>for line in fil\<close>. The state is the pair of the list
  \<open>observationer\<close> and the set \<open>punkter\<close>, both mutated in place, so what was
  accumulated before an exception is still there after it. The first component is the
  exception that left the loop, if any.
\<close>

fun les_linjer ::
  "string list \<Rightarrow> string list \<times> string fset \<Rightarrow> error option \<times> string list \<times> string fset"
where
  "les_linjer [] st = (None, st)"
| "les_linjer (line # rest) (observationer, punkter) =
     (case line of
        [] \<Rightarrow> (Some IndexError, observationer, punkter)
      | c # _ \<Rightarrow>
          if CHR ''#'' \<noteq> c then les_linjer rest (observationer, punkter)
          else
            let line' = strip (lstrip ''#'' line);
                tokens = py_split line'
            in if length tokens \<noteq> 9
               then (Some (AssertionError (''Malformed input line: '' @ line')),
                     observationer, punkter)
               else les_linjer rest
                      (observationer @ [line'],
                       finsert (tokens ! 1) (finsert (tokens ! 0) punkter)))"

text \<open>The outer loop \<open>for fil in filnavne\<close>.\<close>

fun les_filer ::
  "tekstfil list \<Rightarrow> string list \<times> string fset \<Rightarrow> error option \<times> string list \<times> string fset"
where
  "les_filer [] st = (None, st)"
| "les_filer (fil # rest) st =
     (case les_linjer (linjer fil) st of
        (None, st') \<Rightarrow> les_filer rest st'
      | (Some e, st') \<Rightarrow> (Some e, st'))"

section \<open>The Python runtime and the database, as parameters\<close>

text \<open>
  A number held in a tuple is a Python \<open>int\<close> or a \<open>float\<close>. The type \<open>'f\<close> of the
  floats is left open: the interpreter's operations on it are the fields of the record
  \<open>python\<close>, none of which this repository defines.
\<close>

datatype 'f pynum = PyInt int | PyFloat 'f

record 'f python =
  py_float :: "string \<Rightarrow> 'f option"
  py_int :: "string \<Rightarrow> int option"
  py_float_of_int :: "int \<Rightarrow> 'f"
  py_lit :: "string \<Rightarrow> 'f"
  py_div :: "'f \<Rightarrow> 'f \<Rightarrow> 'f"
  py_mul :: "'f \<Rightarrow> 'f \<Rightarrow> 'f"
  py_mul_int :: "'f \<Rightarrow> int \<Rightarrow> 'f option"
  py_add :: "'f \<Rightarrow> 'f \<Rightarrow> 'f"
  py_sqrt :: "'f \<Rightarrow> 'f option"
  py_format :: "bool \<Rightarrow> nat \<Rightarrow> 'f \<Rightarrow> string"
  py_str :: "'f pynum \<Rightarrow> string"
  py_eval :: "string \<Rightarrow> error + 'f pynum list"
  py_splitext :: "string \<Rightarrow> string \<times> string"

text \<open>
  \<open>py_float s\<close> is \<open>float(s)\<close> and \<open>py_int s\<close> is \<open>int(s)\<close>, \<open>None\<close> standing for
  \<open>ValueError\<close>; \<open>py_float_of_int\<close> is \<open>float(i)\<close>; \<open>py_lit\<close> reads a float literal of
  the source text; \<open>py_mul_int x i\<close> is the product \<open>x * i\<close> of a float and an
  \<open>int\<close>, \<open>None\<close> standing for the \<open>OverflowError\<close> of an \<open>int\<close> too large for a
  float; \<open>py_sqrt\<close> is \<open>math.sqrt\<close>, \<open>None\<close> standing for its
  \<open>ValueError\<close>; \<open>py_format plus n x\<close> is \<open>format(x, '+.nf')\<close> when \<open>plus\<close> holds
  and \<open>format(x, '.nf')\<close> otherwise; \<open>py_str\<close> is \<open>str\<close>; \<open>py_eval\<close> is \<open>eval\<close> on a
  text that denotes a tuple of numbers; \<open>py_splitext\<close> is \<open>os.path.splitext\<close>.
\<close>

definition to_float :: "'f python \<Rightarrow> 'f pynum \<Rightarrow> 'f" where
  "to_float py x = (case x of PyInt i \<Rightarrow> py_float_of_int py i | PyFloat f \<Rightarrow> f)"

text \<open>
  The classes of \<open>fireapi.model\<close> (not part of this repository), with the attributes
  the code reads: a \<open>Koordinat\<close> with \<open>sridid\<close>, \<open>z\<close>, \<open>sz\<close> and \<open>registreringtil\<close>
  (\<open>None\<close> while the record is the valid one), and a \<open>PunktInformation\<close> with
  \<open>punktid\<close> and the coordinate history \<open>punkt.koordinater\<close>.
\<close>

record ('f, 't) koordinat =
  sridid :: int
  z :: "'f pynum"
  sz :: "'f pynum"
  registreringtil :: "'t option"

record ('f, 't) punktinformation =
  punktid :: string
  koordinater :: "('f, 't) koordinat list"

text \<open>
  The database session \<open>firedb\<close>: the query of \<open>punkt_information\<close> (its \<open>first()\<close>
  yields a row or \<open>None\<close>), the geometry text of \<open>hent_geometri_objekt\<close>, and the rows
  (name, sridid) of \<open>hent_srider\<close>.
\<close>

record ('f, 't) firedb =
  query_first :: "string \<Rightarrow> error + ('f, 't) punktinformation option"
  hent_geometri_objekt :: "string \<Rightarrow> error + string"
  hent_srider :: "(string \<times> int) list"

section \<open>Features and output events\<close>

text \<open>
  The tuple \<open>(lon, lat, H, sH)\<close> stored for an identifier, and the dictionary
  \<open>punktinfo\<close> in insertion order. \<open>obs_feature\<close> tests a value against \<open>None\<close>, so a
  value of the dictionary may be \<open>None\<close>.
\<close>

type_synonym 'f punkt = "'f pynum \<times> 'f pynum \<times> 'f pynum \<times> 'f pynum"

type_synonym 'f punktdict = "(string \<times> 'f punkt option) list"

record 'f punktfeature =
  pf_id :: string
  pf_H :: "'f pynum"
  pf_sH :: "'f pynum"
  pf_coordinates :: "'f pynum \<times> 'f pynum"

record 'f obsfeature =
  fra :: string
  til :: string
  dist :: 'f
  dH :: 'f
  setups :: int
  journal :: string
  coordinates :: "('f \<times> 'f) \<times> ('f \<times> 'f)"

text \<open>The dictionary \<open>til_json\<close> handed to \<open>json.dump\<close>: a feature collection.\<close>

datatype 'f til_json =
    PunktCollection "'f punktfeature list"
  | ObsCollection "'f obsfeature list"

text \<open>
  What a run does to the outside: a message printed, a file opened for writing (created
  or truncated), a collection dumped to an open file, a text written to an open file.
  A file is named by its path.
\<close>

datatype 'f event =
    Print string
  | Open string
  | Dump string "'f til_json"
  | Write string string

text \<open>
  A computation yields the events it caused, in order, and either the exception that
  ended it or its value.
\<close>

type_synonym ('f, 'a) run = "'f event list \<times> (error + 'a)"

definition return :: "'a \<Rightarrow> ('f, 'a) run" where
  "return a = ([], Inr a)"

definition raise :: "error \<Rightarrow> ('f, 'a) run" where
  "raise e = ([], Inl e)"

definition emit :: "'f event list \<Rightarrow> ('f, unit) run" where
  "emit evs = (evs, Inr ())"

definition lift :: "error + 'a \<Rightarrow> ('f, 'a) run" where
  "lift r = ([], r)"

definition andthen :: "('f, 'a) run \<Rightarrow> ('a \<Rightarrow> ('f, 'b) run) \<Rightarrow> ('f, 'b) run" where
  "andthen m f =
     (case m of
        (evs, Inl e) \<Rightarrow> (evs, Inl e)
      | (evs, Inr a) \<Rightarrow> (case f a of (evs', r) \<Rightarrow> (evs @ evs', r)))"

text \<open>\<open>list(g)\<close> of a generator \<open>g\<close>, given as the outcomes of its steps: the first
  exception ends it.\<close>

fun py_list :: "(error + 'a) list \<Rightarrow> error + 'a list" where
  "py_list [] = Inr []"
| "py_list (Inl e # rest) = Inl e"
| "py_list (Inr x # rest) = (case py_list rest of Inl e \<Rightarrow> Inl e | Inr xs \<Rightarrow> Inr (x # xs))"

section \<open>Database lookups\<close>

fun hent_sridid_loop :: "(string \<times> int) list \<Rightarrow> string \<Rightarrow> int" where
  "hent_sridid_loop [] srid = 0"
| "hent_sridid_loop (s # srider) srid =
     (if fst s = srid then snd s else hent_sridid_loop srider srid)"

definition hent_sridid :: "('f, 't) firedb \<Rightarrow> string \<Rightarrow> int" where
  "hent_sridid db srid = hent_sridid_loop (hent_srider db) srid"

definition punkt_information ::
  "('f, 't) firedb \<Rightarrow> string \<Rightarrow> ('f, ('f, 't) punktinformation option) run"
where
  "punkt_information db ident =
     (case query_first db ident of
        Inl NoResultFound \<Rightarrow>
          andthen (emit [Print (''Error! '' @ ident @ '' not found!'')])
            (\<lambda>_. raise (SystemExit 1))
      | Inl e \<Rightarrow> raise e
      | Inr punktinfo \<Rightarrow> return punktinfo)"

fun punkt_kote_loop :: "('f, 't) koordinat list \<Rightarrow> int \<Rightarrow> ('f, 't) koordinat option" where
  "punkt_kote_loop [] koteid = None"
| "punkt_kote_loop (koord # rest) koteid =
     (if sridid koord \<noteq> koteid then punkt_kote_loop rest koteid
      else if registreringtil koord = None then Some koord
      else punkt_kote_loop rest koteid)"

text \<open>On \<open>None\<close> for \<open>punktinfo\<close> the attribute access \<open>punktinfo.punkt\<close> raises.\<close>

definition punkt_kote ::
  "('f, 't) punktinformation option \<Rightarrow> int \<Rightarrow> error + ('f, 't) koordinat option"
where
  "punkt_kote punktinfo koteid =
     (case punktinfo of
        None \<Rightarrow> Inl AttributeError
      | Some pinfo \<Rightarrow> Inr (punkt_kote_loop (koordinater pinfo) koteid))"

text \<open>
  \<open>punkt_geometri\<close>: only \<open>NoResultFound\<close> is caught (message, then \<open>sys.exit(1)\<close>);
  the \<open>AttributeError\<close> of \<open>punktinfo.punktid\<close> on \<open>None\<close>, an exception of \<open>eval\<close>
  and the failed assertion leave the function.
\<close>

definition punkt_geometri ::
  "'f python \<Rightarrow> ('f, 't) firedb \<Rightarrow> string \<Rightarrow> ('f, 't) punktinformation option
     \<Rightarrow> ('f, 'f pynum list) run"
where
  "punkt_geometri py db ident punktinfo =
     (let not_found =
            andthen (emit [Print (''Error! Geometry for '' @ ident @ '' not found!'')])
              (\<lambda>_. raise (SystemExit 1))
      in case punktinfo of
        None \<Rightarrow> raise AttributeError
      | Some pinfo \<Rightarrow>
          (case hent_geometri_objekt db (punktid pinfo) of
             Inl NoResultFound \<Rightarrow> not_found
           | Inl e \<Rightarrow> raise e
           | Inr geometri \<Rightarrow>
               (case py_eval py (replace_char CHR '' '' CHR '','' (lstrip ''POINT '' geometri)) of
                  Inl NoResultFound \<Rightarrow> not_found
                | Inl e \<Rightarrow> raise e
                | Inr geo \<Rightarrow>
                    if length geo \<noteq> 2
                    then raise (AssertionError (''Bad geometry format: '' @ geometri))
                    else return geo)))"

section \<open>Feature generators\<close>

text \<open>
  One step of the generator \<open>obs_feature\<close>. \<open>punkter[dele[0]]\<close> is a dictionary
  subscript: a missing key raises \<open>KeyError\<close>. The test \<open>fra is None\<close> is reached only
  with a key whose stored value is \<open>None\<close>.
\<close>

definition obs_feature_trin :: "'f python \<Rightarrow> 'f punktdict \<Rightarrow> string \<Rightarrow> error + 'f obsfeature" where
  "obs_feature_trin py punkter obs =
     (let dele = py_split obs in
      if length dele \<noteq> 9 then Inl (AssertionError (''Malformet observation: '' @ obs))
      else
        (case map_of punkter (dele ! 0) of
           None \<Rightarrow> Inl (KeyError (dele ! 0))
         | Some fra0 \<Rightarrow>
        (case map_of punkter (dele ! 1) of
           None \<Rightarrow> Inl (KeyError (dele ! 1))
         | Some til0 \<Rightarrow>
        (let fra1 = (case fra0 of
                       None \<Rightarrow> [PyInt 11, PyInt 56, PyInt 0]
                     | Some (lon, lat, H, sH) \<Rightarrow> [lon, lat, H, sH]);
             til1 = (case til0 of
                       None \<Rightarrow> [PyInt 11, PyInt 56, PyInt 0]
                     | Some (lon, lat, H, sH) \<Rightarrow> [lon, lat, H, sH]);
             dele5 = (if endswith (dele ! 5) ''-557'' then drop_last 4 (dele ! 5) else dele ! 5)
         in
        (case py_float py (dele ! 4) of
           None \<Rightarrow> Inl ValueError
         | Some dist_v \<Rightarrow>
        (case py_float py dele5 of
           None \<Rightarrow> Inl ValueError
         | Some dH_v \<Rightarrow>
        (case py_int py (dele ! 8) of
           None \<Rightarrow> Inl ValueError
         | Some setups_v \<Rightarrow>
             Inr \<lparr>fra = dele ! 0, til = dele ! 1, dist = dist_v, dH = dH_v,
                  setups = setups_v, journal = dele ! 6,
                  coordinates =
                    ((to_float py (fra1 ! 0), to_float py (fra1 ! 1)),
                     (to_float py (til1 ! 0), to_float py (til1 ! 1)))\<rparr>)))))))"

definition obs_feature ::
  "'f python \<Rightarrow> 'f punktdict \<Rightarrow> string list \<Rightarrow> (error + 'f obsfeature) list"
where
  "obs_feature py punkter observationer = map (obs_feature_trin py punkter) observationer"

text \<open>One step of \<open>punkt_feature\<close>; \<open>val[2]\<close> on \<open>None\<close> raises \<open>TypeError\<close>.\<close>

definition punkt_feature_trin :: "string \<times> 'f punkt option \<Rightarrow> error + 'f punktfeature" where
  "punkt_feature_trin kv =
     (case kv of
        (key, None) \<Rightarrow> Inl TypeError
      | (key, Some (lon, lat, H, sH)) \<Rightarrow>
          Inr \<lparr>pf_id = key, pf_H = H, pf_sH = sH, pf_coordinates = (lon, lat)\<rparr>)"

definition punkt_feature :: "'f punktdict \<Rightarrow> (error + 'f punktfeature) list" where
  "punkt_feature punkter = map punkt_feature_trin punkter"

section \<open>XML helper functions\<close>

definition nl :: string where
  "nl = [CHR 0x0A]"

definition xml_preamble :: "string \<Rightarrow> 'f event list" where
  \<open>xml_preamble fil = [Write fil (
     ''<?xml version="1.0" ?><gama-local>'' @ nl @
     ''<network angles="left-handed" axes-xy="en" epoch="0.0">'' @ nl @
     ''<parameters'' @ nl @
     ''    algorithm="gso" angles="400" conf-pr="0.95"'' @ nl @
     ''    cov-band="0" ellipsoid="grs80" latitude="55.7" sigma-act="apriori"'' @ nl @
     ''    sigma-apr="1.0" tol-abs="1000.0"'' @ nl @
     ''    update-constrained-coordinates="no"'' @ nl @
     ''/>'' @ nl @ nl)]\<close>

definition xml_description :: "string \<Rightarrow> string \<Rightarrow> 'f event list" where
  \<open>xml_description fil desc = [Write fil (
     ''<description>'' @ nl @ desc @ nl @ ''</description>'' @ nl @
     ''<points-observations>'' @ nl @ nl)]\<close>

definition xml_fixed_points :: "string \<Rightarrow> 'f event list" where
  \<open>xml_fixed_points fil = [Write fil (nl @ nl @ ''<!-- Fixed -->'' @ nl @ nl)]\<close>

definition xml_adjusted_points :: "string \<Rightarrow> 'f event list" where
  \<open>xml_adjusted_points fil = [Write fil (nl @ nl @ ''<!-- Adjusted -->'' @ nl @ nl)]\<close>

definition xml_observations :: "string \<Rightarrow> 'f event list" where
  \<open>xml_observations fil = [Write fil (nl @ nl @ ''<height-differences>'' @ nl @ nl)]\<close>

definition xml_postamble :: "string \<Rightarrow> 'f event list" where
  \<open>xml_postamble fil = [Write fil (
     nl @ ''</height-differences></points-observations></network></gama-local>'')]\<close>

text \<open>The text \<open>xml_point\<close> writes for a key and an elevation \<open>z\<close>.\<close>

definition point_text :: "'f python \<Rightarrow> bool \<Rightarrow> string \<Rightarrow> 'f pynum \<Rightarrow> string" where
  \<open>point_text py fix key z_v =
     ''<point '' @ (if fix = True then ''fix="Z"'' else ''adj="z"'') @
     '' id="'' @ key @ ''" z="'' @ py_str py z_v @ ''"/>'' @ nl\<close>

definition xml_point ::
  "'f python \<Rightarrow> string \<Rightarrow> bool \<Rightarrow> string \<Rightarrow> 'f punkt option \<Rightarrow> ('f, unit) run"
where
  "xml_point py fil fix key val =
     (case val of
        None \<Rightarrow> raise TypeError
      | Some (lon, lat, H, sH) \<Rightarrow> emit [Write fil (point_text py fix key H)])"

text \<open>
  \<open>xml_obs\<close>: \<open>sqrt(dist)\<close> raises \<open>ValueError\<close> on a negative distance and
  \<open>0.01 * setups\<close>, evaluated after it, raises \<open>OverflowError\<close> when the integer does
  not fit a float; nothing is written then.
\<close>

definition xml_obs :: "'f python \<Rightarrow> string \<Rightarrow> 'f obsfeature \<Rightarrow> ('f, unit) run" where
  \<open>xml_obs py fil obs =
     (let dist_km = py_div py (dist obs) (py_lit py ''1000.0'') in
      case py_sqrt py dist_km of
        None \<Rightarrow> raise ValueError
      | Some root \<Rightarrow>
          (case py_mul_int py (py_lit py ''0.01'') (setups obs) of
             None \<Rightarrow> raise OverflowError
           | Some per_setup \<Rightarrow>
               let stdev = py_add py (py_mul py root (py_lit py ''0.6'')) per_setup
               in emit [Write fil (
                    ''<dh from="'' @ fra obs @ ''" to="'' @ til obs @ ''" '' @
                    ''val="'' @ py_format py True 5 (dH obs) @
                    ''" dist="'' @ py_format py False 5 dist_km @
                    ''" stdev="'' @ py_format py False 2 stdev @ ''"/>'' @ nl)]))\<close>

section \<open>\<open>eksporter\<close>\<close>

text \<open>
  The body of the loop \<open>for ident in sorted(punkter)\<close>: the tuple stored under
  \<open>ident\<close>. \<open>geo\<close> has two elements when \<open>punkt_geometri\<close> returns.
\<close>

definition eksporter_punkt ::
  "'f python \<Rightarrow> ('f, 't) firedb \<Rightarrow> int \<Rightarrow> string \<Rightarrow> ('f, 'f punkt) run"
where
  "eksporter_punkt py db koteid ident =
     andthen (punkt_information db ident) (\<lambda>pinfo.
     andthen (punkt_geometri py db ident pinfo) (\<lambda>geo.
     andthen (lift (punkt_kote pinfo koteid)) (\<lambda>kote.
       let (H, sH) = (case kote of None \<Rightarrow> (PyInt 0, PyInt 0) | Some k \<Rightarrow> (z k, sz k))
       in return (geo ! 0, geo ! 1, H, sH))))"

text \<open>The loop itself; \<open>punktinfo[ident] = ...\<close> is the update of the dictionary.\<close>

fun eksporter_punktinfo ::
  "'f python \<Rightarrow> ('f, 't) firedb \<Rightarrow> int \<Rightarrow> string list \<Rightarrow> 'f punktdict
     \<Rightarrow> ('f, 'f punktdict) run"
where
  "eksporter_punktinfo py db koteid [] punktinfo = return punktinfo"
| "eksporter_punktinfo py db koteid (ident # rest) punktinfo =
     (case eksporter_punkt py db koteid ident of
        (evs, Inl e) \<Rightarrow> (evs, Inl e)
      | (evs, Inr p) \<Rightarrow>
          (case eksporter_punktinfo py db koteid rest
                  (AList.update ident (Some p) punktinfo) of
             (evs', r) \<Rightarrow> (evs @ evs', r)))"

text \<open>The two \<open>with\<close> blocks that write the GeoJSON files.\<close>

definition skriv_punktfil :: "'f punktdict \<Rightarrow> ('f, unit) run" where
  "skriv_punktfil punktinfo =
     andthen (emit [Open ''punkter.geojson'']) (\<lambda>_.
     andthen (lift (py_list (punkt_feature punktinfo))) (\<lambda>features.
     emit [Dump ''punkter.geojson'' (PunktCollection features)]))"

definition skriv_obsfil :: "'f python \<Rightarrow> 'f punktdict \<Rightarrow> string list \<Rightarrow> ('f, unit) run" where
  "skriv_obsfil py punktinfo observationer =
     andthen (emit [Open ''observationer.geojson'']) (\<lambda>_.
     andthen (lift (py_list (obs_feature py punktinfo observationer))) (\<lambda>features.
     emit [Dump ''observationer.geojson'' (ObsCollection features)]))"

text \<open>The three loops of the block that writes the Gama file.\<close>

fun skriv_fixed :: "'f python \<Rightarrow> string \<Rightarrow> 'f punktdict \<Rightarrow> ('f, unit) run" where
  "skriv_fixed py gamafil [] = return ()"
| "skriv_fixed py gamafil ((key, val) # rest) =
     (if startswith key ''G.''
      then (case xml_point py gamafil True key val of
              (evs, Inl e) \<Rightarrow> (evs, Inl e)
            | (evs, Inr _) \<Rightarrow>
                (case skriv_fixed py gamafil rest of (evs', r) \<Rightarrow> (evs @ evs', r)))
      else skriv_fixed py gamafil rest)"

fun skriv_adjusted :: "'f python \<Rightarrow> string \<Rightarrow> 'f punktdict \<Rightarrow> ('f, unit) run" where
  "skriv_adjusted py gamafil [] = return ()"
| "skriv_adjusted py gamafil ((key, val) # rest) =
     (if startswith key ''G.'' = False
      then (case xml_point py gamafil False key val of
              (evs, Inl e) \<Rightarrow> (evs, Inl e)
            | (evs, Inr _) \<Rightarrow>
                (case skriv_adjusted py gamafil rest of (evs', r) \<Rightarrow> (evs @ evs', r)))
      else skriv_adjusted py gamafil rest)"

fun skriv_obs :: "'f python \<Rightarrow> string \<Rightarrow> (error + 'f obsfeature) list \<Rightarrow> ('f, unit) run" where
  "skriv_obs py gamafil [] = return ()"
| "skriv_obs py gamafil (Inl e # rest) = raise e"
| "skriv_obs py gamafil (Inr obs # rest) =
     (case xml_obs py gamafil obs of
        (evs, Inl e) \<Rightarrow> (evs, Inl e)
      | (evs, Inr _) \<Rightarrow>
          (case skriv_obs py gamafil rest of (evs', r) \<Rightarrow> (evs @ evs', r)))"

definition skriv_gamafil ::
  "'f python \<Rightarrow> string \<Rightarrow> 'f punktdict \<Rightarrow> string list \<Rightarrow> ('f, unit) run"
where
  "skriv_gamafil py output punktinfo observationer =
     andthen (emit [Open output]) (\<lambda>_.
     andthen (emit (xml_preamble output)) (\<lambda>_.
     andthen (emit (xml_description output ''bla bla bla'')) (\<lambda>_.
     andthen (emit (xml_fixed_points output)) (\<lambda>_.
     andthen (skriv_fixed py output punktinfo) (\<lambda>_.
     andthen (emit (xml_adjusted_points output)) (\<lambda>_.
     andthen (skriv_adjusted py output punktinfo) (\<lambda>_.
     andthen (emit (xml_observations output)) (\<lambda>_.
     andthen (skriv_obs py output (obs_feature py punktinfo observationer)) (\<lambda>_.
     emit (xml_postamble output))))))))))"

definition eksporter ::
  "'f python \<Rightarrow> ('f, 't) firedb \<Rightarrow> string \<Rightarrow> string list \<Rightarrow> string fset \<Rightarrow> int
     \<Rightarrow> ('f, unit) run"
where
  "eksporter py db output observationer punkter koteid =
     andthen (eksporter_punktinfo py db koteid (sorted_list_of_fset punkter) []) (\<lambda>punktinfo.
     andthen (skriv_punktfil punktinfo) (\<lambda>_.
     andthen (skriv_obsfil py punktinfo observationer) (\<lambda>_.
     skriv_gamafil py output punktinfo observationer)))"

section \<open>\<open>gamaficer\<close>\<close>

text \<open>The output file name: the option \<open>-o\<close>, or one made from the first input file.\<close>

definition outputfilnavn :: "'f python \<Rightarrow> tekstfil list \<Rightarrow> string \<Rightarrow> ('f, string) run" where
  "outputfilnavn py filnavne output =
     (if output = []
      then (case filnavne of
              [] \<Rightarrow> raise IndexError
            | fil # _ \<Rightarrow>
                if name fil = ''<stdin>'' then return ''-''
                else return (fst (py_splitext py (name fil)) @ ''.xml''))
      else return output)"

text \<open>
  The \<open>try\<close> statement. Each handler prints a message and evaluates \<open>click.Abort()\<close>,
  which builds an exception object and raises nothing: control goes on after the
  \<open>try\<close> statement with what the loops had accumulated.
\<close>

definition les_input :: "tekstfil list \<Rightarrow> ('f, string list \<times> string fset) run" where
  "les_input filnavne =
     (case les_filer filnavne ([], {||}) of
        (None, st) \<Rightarrow> return st
      | (Some (AssertionError msg), st) \<Rightarrow> andthen (emit [Print msg]) (\<lambda>_. return st)
      | (Some _, st) \<Rightarrow>
          andthen (emit [Print (''Fejl ved l'' @ [CHR 0xE6] @ ''sning af fil'')])
            (\<lambda>_. return st))"

definition gamaficer ::
  "'f python \<Rightarrow> ('f, 't) firedb \<Rightarrow> tekstfil list \<Rightarrow> string \<Rightarrow> ('f, unit) run"
where
  "gamaficer py db filnavne output =
     andthen (outputfilnavn py filnavne output) (\<lambda>output'.
     andthen (les_input filnavne) (\<lambda>(observationer, punkter).
       let dvr90 = hent_sridid db ''EPSG:5799'' in
       if dvr90 \<noteq> 0 then eksporter py db output' observationer punkter dvr90
       else raise (AssertionError ''DVR90 (EPSG:5799) ikke fundet i srid-tabel'')))"

text \<open>The paths opened for writing, and the texts written, in the events of a run.\<close>

fun opened :: "'f event list \<Rightarrow> string list" where
  "opened [] = []"
| "opened (Open p # evs) = p # opened evs"
| "opened (_ # evs) = opened evs"

fun written :: "'f event list \<Rightarrow> string list" where
  "written [] = []"
| "written (Write p t # evs) = t # written evs"
| "written (_ # evs) = written evs"

section \<open>Example data\<close>

text \<open>
  A stand-in for the interpreter in which a float is the text that denotes it and an
  arithmetic operation builds the text of the expression, and a small database: every
  identifier but \<open>X\<close> is known; a point whose identifier starts with \<open>G.\<close> has a superseded and a valid
  elevation for the system 7, any other point only a superseded one.
\<close>

definition demo_python :: "string python" where
  "demo_python =
     \<lparr>py_float = (\<lambda>s. if s = [] then None else Some s),
      py_int = (\<lambda>s. if s = ''2'' then Some 2 else if s = ''3'' then Some 3 else None),
      py_float_of_int = (\<lambda>i. if i = 11 then ''11.0'' else if i = 56 then ''56.0'' else ''0.0''),
      py_lit = (\<lambda>s. s),
      py_div = (\<lambda>a b. a @ ''/'' @ b),
      py_mul = (\<lambda>a b. a @ ''*'' @ b),
      py_mul_int = (\<lambda>a i. if 1000 < i then None
                          else Some (a @ ''*'' @ (if i = 2 then ''2'' else ''3''))),
      py_add = (\<lambda>a b. a @ ''+'' @ b),
      py_sqrt = (\<lambda>a. Some (''sqrt('' @ a @ '')'')),
      py_format = (\<lambda>plus n a. a),
      py_str = (\<lambda>x. case x of PyInt i \<Rightarrow> ''0'' | PyFloat f \<Rightarrow> f),
      py_eval = (\<lambda>s. Inr [PyFloat ''12.5'', PyFloat ''55.5'']),
      py_splitext = (\<lambda>s. (takeWhile (\<lambda>c. c \<noteq> CHR ''.'') s, dropWhile (\<lambda>c. c \<noteq> CHR ''.'') s))\<rparr>"

definition demo_historik :: "string \<Rightarrow> (string, nat) koordinat list" where
  "demo_historik ident =
     (if startswith ident ''G.''
      then [\<lparr>sridid = 7, z = PyFloat ''30.1'', sz = PyFloat ''0.3'', registreringtil = Some 2017\<rparr>,
            \<lparr>sridid = 4, z = PyFloat ''99.9'', sz = PyFloat ''9.9'', registreringtil = None\<rparr>,
            \<lparr>sridid = 7, z = PyFloat ''30.2'', sz = PyFloat ''0.1'', registreringtil = None\<rparr>]
      else [\<lparr>sridid = 7, z = PyFloat ''30.1'', sz = PyFloat ''0.3'', registreringtil = Some 2017\<rparr>,
            \<lparr>sridid = 4, z = PyFloat ''99.9'', sz = PyFloat ''9.9'', registreringtil = None\<rparr>])"

definition demo_firedb :: "(string, nat) firedb" where
  "demo_firedb =
     \<lparr>query_first = (\<lambda>ident. if ident = ''X'' then Inr None
                       else Inr (Some \<lparr>punktid = ident, koordinater = demo_historik ident\<rparr>)),
      hent_geometri_objekt = (\<lambda>pid. Inr ''POINT (12.5 55.5)''),
      hent_srider = [(''EPSG:4326'', 4), (''EPSG:5799'', 7)]\<rparr>"

definition demo_punktinfo :: "string punktdict" where
  "demo_punktinfo =
     [(''G.1'', Some (PyFloat ''12.5'', PyFloat ''55.5'', PyFloat ''30.2'', PyFloat ''0.1'')),
      (''P1'', Some (PyFloat ''12.5'', PyFloat ''55.5'', PyInt 0, PyInt 0)),
      (''P9'', None)]"

section \<open>The identifier set in the words of the specification\<close>

text \<open>
  A line is significant when it starts with the marker \<open>#\<close>; its tokens are those of
  the line without the leading markers and the surrounding white space. \<open>spec_identer\<close>
  is the union of the first two tokens over the significant lines. A line is well
  formed when it is not empty and, if significant, has nine tokens.
\<close>

definition signifikant :: "string \<Rightarrow> bool" where
  "signifikant line = startswith line ''#''"

definition tokens_of :: "string \<Rightarrow> string list" where
  "tokens_of line = py_split (strip (lstrip ''#'' line))"

definition spec_identer :: "string list \<Rightarrow> string set" where
  "spec_identer lines =
     (\<Union>line \<in> {l \<in> set lines. signifikant l}. {tokens_of line ! 0, tokens_of line ! 1})"

definition velformet :: "string \<Rightarrow> bool" where
  "velformet line = (line \<noteq> [] \<and> (signifikant line \<longrightarrow> length (tokens_of line) = 9))"

definition demo_filer :: "tekstfil list" where
  "demo_filer =
     [\<lparr>name = ''a.txt'',
        linjer = [''#G.1 P1 x x 1000 0.5 J x 2'' @ nl, ''a comment'' @ nl]\<rparr>,
      \<lparr>name = ''b.txt'', linjer = [''# P1 G.2 x x 500 0.1 J x 3'' @ nl]\<rparr>]"

definition demo_filer_omvendt :: "tekstfil list" where
  "demo_filer_omvendt =
     [\<lparr>name = ''b.txt'',
        linjer = [''a comment'' @ nl, ''# P1 G.2 x x 500 0.1 J x 3'' @ nl]\<rparr>,
      \<lparr>name = ''a.txt'', linjer = [''#G.1 P1 x x 1000 0.5 J x 2'' @ nl]\<rparr>]"

section \<open>Reading the events of a run\<close>

text \<open>The collections dumped with their paths, and the paths written to.\<close>

fun dumped :: "'f event list \<Rightarrow> (string \<times> 'f til_json) list" where
  "dumped [] = []"
| "dumped (Dump p j # evs) = (p, j) # dumped evs"
| "dumped (_ # evs) = dumped evs"

fun written_to :: "'f event list \<Rightarrow> string list" where
  "written_to [] = []"
| "written_to (Write p t # evs) = p # written_to evs"
| "written_to (_ # evs) = written_to evs"

text \<open>An event list that only prints.\<close>

definition quiet :: "'f event list \<Rightarrow> bool" where
  "quiet evs = (opened evs = [] \<and> dumped evs = [] \<and> written_to evs = [])"

text \<open>An event list that only writes to the file \<open>fil\<close>.\<close>

definition writes_only :: "string \<Rightarrow> 'f event list \<Rightarrow> bool" where
  "writes_only fil evs = (opened evs = [] \<and> dumped evs = [] \<and> set (written_to evs) \<subseteq> {fil})"

text \<open>A dictionary all of whose values are tuples, and the test of the two loops over
  it: the key starts with \<open>G.\<close>.\<close>

definition tuples_dict :: "(string \<times> 'f punkt) list \<Rightarrow> 'f punktdict" where
  "tuples_dict pts = map (\<lambda>(k, p). (k, Some p)) pts"

definition er_fast :: "string \<times> 'a \<Rightarrow> bool" where
  "er_fast kp = startswith (fst kp) ''G.''"

section \<open>Properties of the lookups\<close>

lemma punkt_information_Inr:
  "punkt_information db ident = (evs, Inr p) \<longleftrightarrow> query_first db ident = Inr p \<and> evs = []"
  by (auto simp: punkt_information_def andthen_def return_def raise_def emit_def
      split: sum.splits error.splits)

lemma punkt_geometri_Inr:
  assumes "punkt_geometri py db ident punktinfo = (evs, Inr geo)"
  shows "evs = [] \<and> length geo = 2 \<and> punktinfo \<noteq> None"
proof (cases punktinfo)
  case None
  with assms show ?thesis by (simp add: punkt_geometri_def raise_def)
next
  case (Some pinfo)
  show ?thesis
  proof (cases "hent_geometri_objekt db (punktid pinfo)")
    case (Inl e)
    with assms Some show ?thesis
      by (cases e) (simp_all add: punkt_geometri_def raise_def andthen_def emit_def)
  next
    case (Inr geometri)
    show ?thesis
    proof (cases "py_eval py (replace_char CHR '' '' CHR '','' (lstrip ''POINT '' geometri))")
      case (Inl e)
      with assms Some Inr show ?thesis
        by (cases e) (simp_all add: punkt_geometri_def raise_def andthen_def emit_def)
    next
      case (Inr g)
      with assms Some \<open>hent_geometri_objekt db (punktid pinfo) = Inr geometri\<close> show ?thesis
        by (auto simp: punkt_geometri_def raise_def return_def split: if_splits)
    qed
  qed
qed

text \<open>The loop of \<open>punkt_kote\<close> returns the first record of the history that is for the
  given system and still valid.\<close>

lemma punkt_kote_loop_filter:
  "punkt_kote_loop ks koteid =
     (case filter (\<lambda>k. sridid k = koteid \<and> registreringtil k = None) ks of
        [] \<Rightarrow> None | k # _ \<Rightarrow> Some k)"
  by (induction ks) auto

text \<open>The tuple stored for an identifier that the database knows, with its geometry.\<close>

lemma eksporter_punkt_found:
  assumes "query_first db ident = Inr (Some pinfo)"
    and "punkt_geometri py db ident (Some pinfo) = (gevs, Inr geo)"
  shows "eksporter_punkt py db koteid ident =
           ([], Inr (geo ! 0, geo ! 1,
                     case punkt_kote_loop (koordinater pinfo) koteid of
                       None \<Rightarrow> (PyInt 0, PyInt 0) | Some k \<Rightarrow> (z k, sz k)))"
proof -
  have i: "punkt_information db ident = ([], Inr (Some pinfo))"
    using assms(1) by (simp add: punkt_information_Inr)
  have g: "gevs = []" using punkt_geometri_Inr [OF assms(2)] by simp
  show ?thesis
    unfolding eksporter_punkt_def i
    by (simp add: andthen_def assms(2) g lift_def punkt_kote_def return_def
        split: option.splits)
qed

lemma demo_geometri:
  "punkt_geometri demo_python demo_firedb ident
       (Some \<lparr>punktid = ident, koordinater = demo_historik ident\<rparr>)
     = ([], Inr [PyFloat ''12.5'', PyFloat ''55.5''])"
  by (simp add: punkt_geometri_def demo_firedb_def demo_python_def return_def)

text \<open>
  Claim C6. Let the database know the point and its geometry, and let the coordinate
  history of the point hold exactly one record whose reference system is the elevation
  system \<open>koteid\<close> and whose \<open>registreringtil\<close> is unset, say \<open>r\<close>; the history
  may hold any number of superseded records of that system and records of other
  systems, before or after \<open>r\<close>. Then \<open>punkt_kote\<close> returns \<open>r\<close>, and the tuple
  that \<open>eksporter\<close> stores for the point carries the value \<open>z r\<close> as elevation and
  \<open>sz r\<close> as its uncertainty.
\<close>

theorem kote_of_valid_record:
  assumes "query_first db ident = Inr (Some pinfo)"
    and "punkt_geometri py db ident (Some pinfo) = (gevs, Inr geo)"
    and "filter (\<lambda>k. sridid k = koteid \<and> registreringtil k = None) (koordinater pinfo) = [r]"
  shows "punkt_kote (Some pinfo) koteid = Inr (Some r)
       \<and> eksporter_punkt py db koteid ident = ([], Inr (geo ! 0, geo ! 1, z r, sz r))"
proof -
  have k: "punkt_kote_loop (koordinater pinfo) koteid = Some r"
    by (simp add: punkt_kote_loop_filter assms(3))
  show ?thesis
    using eksporter_punkt_found [OF assms(1,2), of koteid] k by (simp add: punkt_kote_def)
qed

theorem kote_of_valid_record_witness:
  "punkt_kote (Some \<lparr>punktid = ''G.1'', koordinater = demo_historik ''G.1''\<rparr>) 7
     = Inr (Some \<lparr>sridid = 7, z = PyFloat ''30.2'', sz = PyFloat ''0.1'',
                   registreringtil = None\<rparr>)
   \<and> eksporter_punkt demo_python demo_firedb 7 ''G.1''
     = ([], Inr (PyFloat ''12.5'', PyFloat ''55.5'', PyFloat ''30.2'', PyFloat ''0.1''))"
proof -
  have q: "query_first demo_firedb ''G.1''
             = Inr (Some \<lparr>punktid = ''G.1'', koordinater = demo_historik ''G.1''\<rparr>)"
    by (simp add: demo_firedb_def)
  have f: "filter (\<lambda>k. sridid k = 7 \<and> registreringtil k = None)
             (koordinater \<lparr>punktid = ''G.1'', koordinater = demo_historik ''G.1''\<rparr>)
           = [\<lparr>sridid = 7, z = PyFloat ''30.2'', sz = PyFloat ''0.1'', registreringtil = None\<rparr>]"
    by (simp add: demo_historik_def startswith_def)
  show ?thesis
    using kote_of_valid_record [OF q demo_geometri f] by simp
qed

text \<open>
  Claim C7. Let the database know the point and its geometry, and let the coordinate
  history of the point hold no record whose reference system is the elevation system
  \<open>koteid\<close> and whose \<open>registreringtil\<close> is unset. Then \<open>punkt_kote\<close> returns
  \<open>None\<close>, and the tuple that \<open>eksporter\<close> stores for the point has elevation 0 and
  elevation uncertainty 0.
\<close>

theorem kote_default_zero:
  assumes "query_first db ident = Inr (Some pinfo)"
    and "punkt_geometri py db ident (Some pinfo) = (gevs, Inr geo)"
    and "filter (\<lambda>k. sridid k = koteid \<and> registreringtil k = None) (koordinater pinfo) = []"
  shows "punkt_kote (Some pinfo) koteid = Inr None
       \<and> eksporter_punkt py db koteid ident = ([], Inr (geo ! 0, geo ! 1, PyInt 0, PyInt 0))"
proof -
  have k: "punkt_kote_loop (koordinater pinfo) koteid = None"
    by (simp add: punkt_kote_loop_filter assms(3))
  show ?thesis
    using eksporter_punkt_found [OF assms(1,2), of koteid] k by (simp add: punkt_kote_def)
qed

theorem kote_default_zero_witness:
  "punkt_kote (Some \<lparr>punktid = ''P1'', koordinater = demo_historik ''P1''\<rparr>) 7 = Inr None
   \<and> eksporter_punkt demo_python demo_firedb 7 ''P1''
     = ([], Inr (PyFloat ''12.5'', PyFloat ''55.5'', PyInt 0, PyInt 0))"
proof -
  have q: "query_first demo_firedb ''P1''
             = Inr (Some \<lparr>punktid = ''P1'', koordinater = demo_historik ''P1''\<rparr>)"
    by (simp add: demo_firedb_def)
  have f: "filter (\<lambda>k. sridid k = 7 \<and> registreringtil k = None)
             (koordinater \<lparr>punktid = ''P1'', koordinater = demo_historik ''P1''\<rparr>) = []"
    by (simp add: demo_historik_def startswith_def)
  show ?thesis
    using kote_default_zero [OF q demo_geometri f] by simp
qed

section \<open>Properties of the observation features\<close>

lemma endswith_append: "endswith (X @ p) p"
  by (simp add: endswith_def)

text \<open>
  Claim C8. Take an observation line of nine tokens whose other fields are in order
  (both end points are keys of the dictionary, the distance parses as a float and the
  number of setups as an integer). If its sixth token is \<open>X\<close> followed by the suffix
  \<open>-557\<close>, the height difference of the feature is \<open>float(X)\<close>, the token without
  its last four characters, and a \<open>ValueError\<close> when \<open>X\<close> does not parse. If the
  token does not end with \<open>-557\<close>, the height difference is \<open>float\<close> of the token
  as it stands.
\<close>

theorem dH_suffix_repair:
  assumes "py_split obs = dele" and "length dele = 9"
    and "map_of punkter (dele ! 0) = Some a" and "map_of punkter (dele ! 1) = Some b"
    and "py_float py (dele ! 4) = Some d" and "py_int py (dele ! 8) = Some n"
  shows "(dele ! 5 = X @ ''-557'' \<longrightarrow>
            map_sum id dH (obs_feature_trin py punkter obs)
              = (case py_float py X of None \<Rightarrow> Inl ValueError | Some h \<Rightarrow> Inr h))
       \<and> (\<not> endswith (dele ! 5) ''-557'' \<longrightarrow>
            map_sum id dH (obs_feature_trin py punkter obs)
              = (case py_float py (dele ! 5) of None \<Rightarrow> Inl ValueError | Some h \<Rightarrow> Inr h))"
proof (intro conjI impI)
  assume t: "dele ! 5 = X @ ''-557''"
  have e: "endswith (dele ! 5) ''-557''" unfolding t by (rule endswith_append)
  have r: "drop_last 4 (dele ! 5) = X" unfolding t by (simp add: drop_last_def)
  show "map_sum id dH (obs_feature_trin py punkter obs)
          = (case py_float py X of None \<Rightarrow> Inl ValueError | Some h \<Rightarrow> Inr h)"
    using assms e r by (simp add: obs_feature_trin_def Let_def split: option.splits)
next
  assume "\<not> endswith (dele ! 5) ''-557''"
  then show "map_sum id dH (obs_feature_trin py punkter obs)
          = (case py_float py (dele ! 5) of None \<Rightarrow> Inl ValueError | Some h \<Rightarrow> Inr h)"
    using assms by (simp add: obs_feature_trin_def Let_def split: option.splits)
qed

lemma demo_split1: "py_split ''G.1 P1 x x 1000 0.5-557 J x 2''
   = [''G.1'', ''P1'', ''x'', ''x'', ''1000'', ''0.5-557'', ''J'', ''x'', ''2'']"
  by (simp add: py_split_def isspace_def)

lemma demo_split2: "py_split ''G.1 P1 x x 1000 -0.25 J x 2''
   = [''G.1'', ''P1'', ''x'', ''x'', ''1000'', ''-0.25'', ''J'', ''x'', ''2'']"
  by (simp add: py_split_def isspace_def)

theorem dH_suffix_repair_witness:
  "map_sum id dH (obs_feature_trin demo_python demo_punktinfo ''G.1 P1 x x 1000 0.5-557 J x 2'')
     = Inr ''0.5''
   \<and> map_sum id dH (obs_feature_trin demo_python demo_punktinfo ''G.1 P1 x x 1000 -0.25 J x 2'')
     = Inr ''-0.25''"
proof -
  have 1: "map_sum id dH (obs_feature_trin demo_python demo_punktinfo ''G.1 P1 x x 1000 0.5-557 J x 2'')
     = Inr ''0.5''"
    using dH_suffix_repair [OF demo_split1, of demo_punktinfo _ _ demo_python "''1000''" 2 "''0.5''"]
    by (simp add: demo_punktinfo_def demo_python_def)
  have 2: "map_sum id dH (obs_feature_trin demo_python demo_punktinfo ''G.1 P1 x x 1000 -0.25 J x 2'')
     = Inr ''-0.25''"
    using dH_suffix_repair [OF demo_split2, of demo_punktinfo _ _ demo_python "''1000''" 2 "''x''"]
    by (simp add: demo_punktinfo_def demo_python_def endswith_def)
  show ?thesis using 1 2 by simp
qed

section \<open>Properties of \<open>gamaficer\<close>\<close>

lemma les_input_opened: "opened (fst (les_input filnavne :: ('f, string list \<times> string fset) run)) = []"
  by (simp add: les_input_def andthen_def emit_def return_def split: prod.splits option.splits error.splits)

lemma les_input_Inr: "\<exists>st. snd (les_input filnavne :: ('f, string list \<times> string fset) run) = Inr st"
  by (simp add: les_input_def andthen_def emit_def return_def split: prod.splits option.splits error.splits)

text \<open>
  Claim C3. When the lookup of the code \<open>EPSG:5799\<close> in the srid table returns 0,
  \<open>gamaficer\<close> ends with an exception (the failed assertion, or the \<open>IndexError\<close> of
  \<open>filnavne[0]\<close> when there is neither an output name nor an input file) and no file
  has been opened for writing.
\<close>

theorem srid_not_found_aborts:
  assumes "hent_sridid db ''EPSG:5799'' = 0"
  shows "snd (gamaficer (py :: 'f python) db filnavne output)
           = Inl (if output = [] \<and> filnavne = [] then IndexError
                  else AssertionError ''DVR90 (EPSG:5799) ikke fundet i srid-tabel'')
       \<and> opened (fst (gamaficer py db filnavne output)) = []"
proof -
  obtain evs st where l: "(les_input filnavne :: ('f, string list \<times> string fset) run) = (evs, Inr st)"
    using les_input_Inr [of filnavne] by (metis prod.collapse)
  have o: "opened evs = []" using les_input_opened [of filnavne, where ?'f = 'f] l by simp
  show ?thesis
    using assms l o
    by (cases st)
       (auto simp: gamaficer_def outputfilnavn_def andthen_def raise_def return_def
             split: list.splits)
qed

theorem srid_not_found_aborts_witness:
  "hent_sridid (demo_firedb\<lparr>hent_srider := [(''EPSG:4326'', 4)]\<rparr>) ''EPSG:5799'' = 0
   \<and> gamaficer demo_python (demo_firedb\<lparr>hent_srider := [(''EPSG:4326'', 4)]\<rparr>)
        [\<lparr>name = ''kdi.txt'', linjer = [''#G.1 P1 x x 1000 0.5 J x 2'' @ nl]\<rparr>] []
     = ([], Inl (AssertionError ''DVR90 (EPSG:5799) ikke fundet i srid-tabel''))"
proof -
  have h: "hent_sridid (demo_firedb\<lparr>hent_srider := [(''EPSG:4326'', 4)]\<rparr>) ''EPSG:5799'' = 0"
    by (simp add: hent_sridid_def)
  have e: "fst (gamaficer demo_python (demo_firedb\<lparr>hent_srider := [(''EPSG:4326'', 4)]\<rparr>)
        [\<lparr>name = ''kdi.txt'', linjer = [''#G.1 P1 x x 1000 0.5 J x 2'' @ nl]\<rparr>] []) = []"
    by code_simp
  show ?thesis
    using srid_not_found_aborts [OF h, of demo_python "[\<lparr>name = ''kdi.txt'', linjer = [''#G.1 P1 x x 1000 0.5 J x 2'' @ nl]\<rparr>]" "[]"] h e
    by (simp add: prod_eq_iff)
qed

text \<open>
  Claim C1, evaluated on the code. The input file holds a well-formed line and then a
  marked line of three tokens. The run prints the message with the text of the
  offending line and goes on: it returns normally and has written all three files,
  from the line read before the malformed one.
\<close>

theorem malformed_line_run_goes_on:
  "snd (gamaficer demo_python demo_firedb
     [\<lparr>name = ''kdi.txt'', linjer = [''#G.1 P1 x x 1000 0.5 J x 2'' @ nl, ''#P1 G.2 oops'' @ nl]\<rparr>] [])
     = Inr ()
   \<and> filter (\<lambda>ev. case ev of Write p t \<Rightarrow> False | _ \<Rightarrow> True)
       (fst (gamaficer demo_python demo_firedb
          [\<lparr>name = ''kdi.txt'', linjer = [''#G.1 P1 x x 1000 0.5 J x 2'' @ nl, ''#P1 G.2 oops'' @ nl]\<rparr>] []))
     = [Print ''Malformed input line: P1 G.2 oops'',
        Open ''punkter.geojson'',
        Dump ''punkter.geojson'' (PunktCollection
          [\<lparr>pf_id = ''G.1'', pf_H = PyFloat ''30.2'', pf_sH = PyFloat ''0.1'',
             pf_coordinates = (PyFloat ''12.5'', PyFloat ''55.5'')\<rparr>,
           \<lparr>pf_id = ''P1'', pf_H = PyInt 0, pf_sH = PyInt 0,
             pf_coordinates = (PyFloat ''12.5'', PyFloat ''55.5'')\<rparr>]),
        Open ''observationer.geojson'',
        Dump ''observationer.geojson'' (ObsCollection
          [\<lparr>fra = ''G.1'', til = ''P1'', dist = ''1000'', dH = ''0.5'', setups = 2, journal = ''J'',
             coordinates = ((''12.5'', ''55.5''), (''12.5'', ''55.5''))\<rparr>]),
        Open ''kdi.xml'']"
  by code_simp

section \<open>Properties of the reading of the input\<close>

lemma signifikant_Cons [simp]: "signifikant (c # cs) = (c = CHR ''#'')"
  by (simp add: signifikant_def startswith_def)

lemma signifikant_Nil [simp]: "\<not> signifikant []"
  by (simp add: signifikant_def startswith_def)

lemma spec_identer_Nil [simp]: "spec_identer [] = {}"
  by (simp add: spec_identer_def)

lemma spec_identer_Cons:
  "spec_identer (l # ls) =
     (if signifikant l then {tokens_of l ! 0, tokens_of l ! 1} else {}) \<union> spec_identer ls"
  by (auto simp: spec_identer_def)

lemma spec_identer_append: "spec_identer (xs @ ys) = spec_identer xs \<union> spec_identer ys"
  by (auto simp: spec_identer_def)

lemma spec_identer_cong: "set xs = set ys \<Longrightarrow> spec_identer xs = spec_identer ys"
  by (simp add: spec_identer_def)

lemma les_linjer_velformet:
  "\<forall>l\<in>set lines. velformet l \<Longrightarrow>
     \<exists>obs' P'. les_linjer lines (obs, P) = (None, obs', P') \<and>
               fset P' = fset P \<union> spec_identer lines"
proof (induction lines arbitrary: obs P)
  case Nil
  then show ?case by simp
next
  case (Cons l ls)
  from Cons.prems obtain c cs where l: "l = c # cs"
    by (cases l) (auto simp: velformet_def)
  show ?case
  proof (cases "c = CHR ''#''")
    case False
    with Cons l show ?thesis by (simp add: spec_identer_Cons)
  next
    case True
    with Cons.prems l have n: "length (py_split (strip (lstrip ''#'' (c # cs)))) = 9"
      by (simp add: velformet_def tokens_of_def)
    from Cons.prems have "\<forall>l\<in>set ls. velformet l" by simp
    from Cons.IH [OF this] obtain obs' P' where
      "les_linjer ls (obs @ [strip (lstrip ''#'' l)],
          finsert (tokens_of l ! 1) (finsert (tokens_of l ! 0) P)) = (None, obs', P')"
      "fset P' = fset (finsert (tokens_of l ! 1) (finsert (tokens_of l ! 0) P)) \<union> spec_identer ls"
      by blast
    with True l n show ?thesis
      by (auto simp: spec_identer_Cons tokens_of_def Let_def)
  qed
qed

lemma les_linjer_None:
  "les_linjer lines (obs, P) = (None, obs', P') \<Longrightarrow> \<forall>l\<in>set lines. velformet l"
proof (induction lines arbitrary: obs P)
  case Nil
  then show ?case by simp
next
  case (Cons l ls)
  then show ?case
    by (cases l) (auto simp: velformet_def tokens_of_def Let_def split: if_splits)
qed

lemma les_filer_velformet:
  "\<forall>l\<in>set (concat (map linjer filer)). velformet l \<Longrightarrow>
     \<exists>obs' P'. les_filer filer (obs, P) = (None, obs', P') \<and>
               fset P' = fset P \<union> spec_identer (concat (map linjer filer))"
proof (induction filer arbitrary: obs P)
  case Nil
  then show ?case by simp
next
  case (Cons fil rest)
  from Cons.prems have a: "\<forall>l\<in>set (linjer fil). velformet l"
    and b: "\<forall>l\<in>set (concat (map linjer rest)). velformet l" by simp_all
  from les_linjer_velformet [OF a, of obs P] obtain obs1 P1 where
    1: "les_linjer (linjer fil) (obs, P) = (None, obs1, P1)"
       "fset P1 = fset P \<union> spec_identer (linjer fil)" by blast
  from Cons.IH [OF b, of obs1 P1] obtain obs2 P2 where
    2: "les_filer rest (obs1, P1) = (None, obs2, P2)"
       "fset P2 = fset P1 \<union> spec_identer (concat (map linjer rest))" by blast
  from 1 2 show ?case
    by (auto simp: spec_identer_append)
qed

lemma les_filer_None:
  "les_filer filer (obs, P) = (None, obs', P') \<Longrightarrow>
     \<forall>l\<in>set (concat (map linjer filer)). velformet l"
proof (induction filer arbitrary: obs P)
  case Nil
  then show ?case by simp
next
  case (Cons fil rest)
  obtain e obs1 P1 where r: "les_linjer (linjer fil) (obs, P) = (e, obs1, P1)"
    by (metis prod_cases3)
  with Cons.prems have e: "e = None" and t: "les_filer rest (obs1, P1) = (None, obs', P')"
    by (auto split: option.splits)
  from r e have "\<forall>l\<in>set (linjer fil). velformet l"
    using les_linjer_None by blast
  moreover from Cons.IH [OF t] have "\<forall>l\<in>set (concat (map linjer rest)). velformet l" .
  ultimately show ?case by auto
qed

text \<open>
  Input whose lines are all well formed (not empty, and of nine tokens when marked) is
  read without an exception; the set \<open>punkter\<close> is then the union of the first and the
  second token over all marked lines, and other files that hold the same lines, in any
  order and in any grouping into files, give the same set.
\<close>

lemma identer_union_any_order:
  fixes filer filer' :: "tekstfil list"
  assumes "\<forall>l\<in>set (concat (map linjer filer)). velformet l"
    and "set (concat (map linjer filer')) = set (concat (map linjer filer))"
  shows "\<exists>obs obs' punkter.
           les_filer filer ([], {||}) = (None, obs, punkter)
         \<and> fset punkter = spec_identer (concat (map linjer filer))
         \<and> les_filer filer' ([], {||}) = (None, obs', punkter)"
proof -
  from les_filer_velformet [OF assms(1), of "[]" "{||}"] obtain obs P where
    1: "les_filer filer ([], {||}) = (None, obs, P)"
       "fset P = spec_identer (concat (map linjer filer))" by auto
  from assms have "\<forall>l\<in>set (concat (map linjer filer')). velformet l" by simp
  from les_filer_velformet [OF this, of "[]" "{||}"] obtain obs' P' where
    2: "les_filer filer' ([], {||}) = (None, obs', P')"
       "fset P' = spec_identer (concat (map linjer filer'))" by auto
  from 1(2) 2(2) have "fset P' = fset P"
    using spec_identer_cong [OF assms(2)] by simp
  then have "P' = P" by (simp add: fset_inject)
  with 1 2(1) show ?thesis by blast
qed

lemma demo_velformet: "\<forall>l\<in>set (concat (map linjer demo_filer)). velformet l"
  by (simp add: demo_filer_def velformet_def signifikant_def startswith_def tokens_of_def
      strip_def lstrip_def py_split_def isspace_def nl_def)

lemma demo_filer_samme_linjer:
  "set (concat (map linjer demo_filer_omvendt)) = set (concat (map linjer demo_filer))"
  by (auto simp: demo_filer_def demo_filer_omvendt_def)

lemma demo_filer_les:
  "les_filer demo_filer ([], {||})
     = (None, [''G.1 P1 x x 1000 0.5 J x 2'', ''P1 G.2 x x 500 0.1 J x 3''],
        {|''G.1'', ''P1'', ''G.2''|})"
  by code_simp

lemma identer_union_any_order_demo:
  "les_filer demo_filer ([], {||})
     = (None, [''G.1 P1 x x 1000 0.5 J x 2'', ''P1 G.2 x x 500 0.1 J x 3''],
        {|''G.1'', ''P1'', ''G.2''|})
   \<and> spec_identer (concat (map linjer demo_filer)) = {''G.1'', ''P1'', ''G.2''}
   \<and> (\<exists>obs'. les_filer demo_filer_omvendt ([], {||}) = (None, obs', {|''G.1'', ''P1'', ''G.2''|}))"
  using identer_union_any_order [OF demo_velformet demo_filer_samme_linjer] demo_filer_les
  by auto

text \<open>
  Claim C9, evaluated on the code. One file holds a well-formed line, another a marked
  line of three tokens, \<open>P1\<close>, \<open>G.2\<close> and \<open>oops\<close>. Read in this order they leave
  the set of \<open>G.1\<close> and \<open>P1\<close>, read in the other order the empty set, and neither is
  the union of the first two tokens over the marked lines, which holds \<open>G.2\<close> as
  well. The run goes on with the set it has: in the second order it returns normally
  and has opened all three output files.
\<close>

theorem identer_partial_on_malformed:
  "snd (snd (les_filer
       [\<lparr>name = ''a.txt'', linjer = [''#G.1 P1 x x 1000 0.5 J x 2'' @ nl]\<rparr>,
        \<lparr>name = ''b.txt'', linjer = [''#P1 G.2 oops'' @ nl]\<rparr>] ([], {||})))
     = {|''G.1'', ''P1''|}
   \<and> snd (snd (les_filer
       [\<lparr>name = ''b.txt'', linjer = [''#P1 G.2 oops'' @ nl]\<rparr>,
        \<lparr>name = ''a.txt'', linjer = [''#G.1 P1 x x 1000 0.5 J x 2'' @ nl]\<rparr>] ([], {||})))
     = {||}
   \<and> spec_identer [''#G.1 P1 x x 1000 0.5 J x 2'' @ nl, ''#P1 G.2 oops'' @ nl]
     = {''G.1'', ''P1'', ''G.2''}
   \<and> snd (gamaficer demo_python demo_firedb
       [\<lparr>name = ''b.txt'', linjer = [''#P1 G.2 oops'' @ nl]\<rparr>,
        \<lparr>name = ''a.txt'', linjer = [''#G.1 P1 x x 1000 0.5 J x 2'' @ nl]\<rparr>] [])
     = Inr ()
   \<and> opened (fst (gamaficer demo_python demo_firedb
       [\<lparr>name = ''b.txt'', linjer = [''#P1 G.2 oops'' @ nl]\<rparr>,
        \<lparr>name = ''a.txt'', linjer = [''#G.1 P1 x x 1000 0.5 J x 2'' @ nl]\<rparr>] []))
     = [''punkter.geojson'', ''observationer.geojson'', ''b.xml'']"
proof -
  have 1: "snd (snd (les_filer
       [\<lparr>name = ''a.txt'', linjer = [''#G.1 P1 x x 1000 0.5 J x 2'' @ nl]\<rparr>,
        \<lparr>name = ''b.txt'', linjer = [''#P1 G.2 oops'' @ nl]\<rparr>] ([], {||})))
     = {|''G.1'', ''P1''|}"
    by code_simp
  have 2: "snd (snd (les_filer
       [\<lparr>name = ''b.txt'', linjer = [''#P1 G.2 oops'' @ nl]\<rparr>,
        \<lparr>name = ''a.txt'', linjer = [''#G.1 P1 x x 1000 0.5 J x 2'' @ nl]\<rparr>] ([], {||})))
     = {||}"
    by code_simp
  have t1: "tokens_of (''#G.1 P1 x x 1000 0.5 J x 2'' @ nl)
              = [''G.1'', ''P1'', ''x'', ''x'', ''1000'', ''0.5'', ''J'', ''x'', ''2'']"
    by (simp add: tokens_of_def strip_def lstrip_def py_split_def isspace_def nl_def)
  have t2: "tokens_of (''#P1 G.2 oops'' @ nl) = [''P1'', ''G.2'', ''oops'']"
    by (simp add: tokens_of_def strip_def lstrip_def py_split_def isspace_def nl_def)
  have 3: "spec_identer [''#G.1 P1 x x 1000 0.5 J x 2'' @ nl, ''#P1 G.2 oops'' @ nl]
     = {''G.1'', ''P1'', ''G.2''}"
    unfolding spec_identer_Cons spec_identer_Nil t1 t2
    by (auto simp: signifikant_def startswith_def)
  have 4: "snd (gamaficer demo_python demo_firedb
       [\<lparr>name = ''b.txt'', linjer = [''#P1 G.2 oops'' @ nl]\<rparr>,
        \<lparr>name = ''a.txt'', linjer = [''#G.1 P1 x x 1000 0.5 J x 2'' @ nl]\<rparr>] [])
     = Inr ()"
    by code_simp
  have 5: "opened (fst (gamaficer demo_python demo_firedb
       [\<lparr>name = ''b.txt'', linjer = [''#P1 G.2 oops'' @ nl]\<rparr>,
        \<lparr>name = ''a.txt'', linjer = [''#G.1 P1 x x 1000 0.5 J x 2'' @ nl]\<rparr>] []))
     = [''punkter.geojson'', ''observationer.geojson'', ''b.xml'']"
    by code_simp
  show ?thesis using 1 2 3 4 5 by (intro conjI)
qed

section \<open>Properties of the output files\<close>

lemma opened_append [simp]: "opened (xs @ ys) = opened xs @ opened ys"
  by (induction xs rule: opened.induct) simp_all

lemma written_append [simp]: "written (xs @ ys) = written xs @ written ys"
  by (induction xs rule: written.induct) simp_all

lemma dumped_append [simp]: "dumped (xs @ ys) = dumped xs @ dumped ys"
  by (induction xs rule: dumped.induct) simp_all

lemma written_to_append [simp]: "written_to (xs @ ys) = written_to xs @ written_to ys"
  by (induction xs rule: written_to.induct) simp_all

lemma quiet_Nil [simp]: "quiet []"
  by (simp add: quiet_def)

lemma quiet_append [simp]: "quiet (xs @ ys) = (quiet xs \<and> quiet ys)"
  by (auto simp: quiet_def)

lemma quiet_Print [simp]: "quiet [Print m]"
  by (simp add: quiet_def)

lemma punkt_information_quiet: "quiet (fst (punkt_information db ident))"
  by (simp add: punkt_information_def andthen_def emit_def raise_def return_def
      split: sum.splits error.splits)

lemma punkt_geometri_quiet: "quiet (fst (punkt_geometri py db ident pinfo))"
  by (simp add: punkt_geometri_def andthen_def emit_def raise_def return_def Let_def
      split: sum.splits error.splits option.splits)

lemma andthen_fst_quiet:
  "quiet (fst m) \<Longrightarrow> (\<And>a. quiet (fst (f a))) \<Longrightarrow> quiet (fst (andthen m f))"
  by (cases m) (auto simp: andthen_def split: sum.splits prod.splits, metis fst_conv)

lemma eksporter_punkt_quiet: "quiet (fst (eksporter_punkt py db koteid ident))"
  unfolding eksporter_punkt_def
  by (intro andthen_fst_quiet punkt_information_quiet punkt_geometri_quiet)
     (simp_all add: lift_def return_def split: option.splits prod.splits)

lemma eksporter_punktinfo_quiet: "quiet (fst (eksporter_punktinfo py db koteid idents d))"
proof (induction idents arbitrary: d)
  case Nil
  show ?case by (simp add: return_def)
next
  case (Cons i rest)
  obtain evs r where e: "eksporter_punkt py db koteid i = (evs, r)" by (cases "eksporter_punkt py db koteid i")
  have q: "quiet evs" using eksporter_punkt_quiet [of py db koteid i] e by simp
  show ?case
  proof (cases r)
    case (Inl x)
    with e q show ?thesis by simp
  next
    case (Inr p)
    obtain evs' r' where e': "eksporter_punktinfo py db koteid rest (AList.update i (Some p) d) = (evs', r')"
      by (cases "eksporter_punktinfo py db koteid rest (AList.update i (Some p) d)")
    have "quiet evs'" using Cons.IH [of "AList.update i (Some p) d"] e' by simp
    with e q Inr e' show ?thesis by simp
  qed
qed

lemma writes_only_Nil [simp]: "writes_only fil []"
  by (simp add: writes_only_def)

lemma writes_only_append [simp]:
  "writes_only fil (xs @ ys) = (writes_only fil xs \<and> writes_only fil ys)"
  by (auto simp: writes_only_def)

lemma writes_only_Write [simp]: "writes_only fil [Write fil t]"
  by (simp add: writes_only_def)

lemma xml_point_writes: "writes_only fil (fst (xml_point py fil fix key val))"
  by (simp add: xml_point_def raise_def emit_def split: option.splits prod.splits)

lemma xml_obs_writes: "writes_only fil (fst (xml_obs py fil obs))"
  by (simp add: xml_obs_def raise_def emit_def Let_def split: option.splits)

lemma step_writes:
  "writes_only fil (fst m) \<Longrightarrow> writes_only fil (fst k) \<Longrightarrow>
     writes_only fil
       (fst (case m of
               (evs, Inl e) \<Rightarrow> (evs, Inl e)
             | (evs, Inr _) \<Rightarrow> (case k of (evs', r) \<Rightarrow> (evs @ evs', r))))"
  by (cases m; cases k) (auto split: sum.splits)

lemma andthen_emit: "andthen (emit evs) f = (evs @ fst (f ()), snd (f ()))"
  by (simp add: andthen_def emit_def split: prod.splits)

lemma skriv_fixed_writes: "writes_only fil (fst (skriv_fixed py fil d))"
proof (induction d)
  case Nil
  show ?case by (simp add: return_def)
next
  case (Cons kv d)
  obtain key val where kv: "kv = (key, val)" by (cases kv)
  show ?case
    using step_writes [OF xml_point_writes [of fil py True key val] Cons] Cons
    by (simp add: kv)
qed

lemma skriv_adjusted_writes: "writes_only fil (fst (skriv_adjusted py fil d))"
proof (induction d)
  case Nil
  show ?case by (simp add: return_def)
next
  case (Cons kv d)
  obtain key val where kv: "kv = (key, val)" by (cases kv)
  show ?case
    using step_writes [OF xml_point_writes [of fil py False key val] Cons] Cons
    by (simp add: kv)
qed

lemma skriv_obs_writes: "writes_only fil (fst (skriv_obs py fil gen))"
proof (induction gen)
  case Nil
  show ?case by (simp add: return_def)
next
  case (Cons r gen)
  show ?case
  proof (cases r)
    case (Inl e)
    then show ?thesis by (simp add: raise_def)
  next
    case (Inr obs)
    with step_writes [OF xml_obs_writes [of fil py obs] Cons] show ?thesis
      by simp
  qed
qed

lemma andthen_fst_writes:
  "writes_only fil (fst m) \<Longrightarrow> (\<And>a. writes_only fil (fst (f a)))
     \<Longrightarrow> writes_only fil (fst (andthen m f))"
  by (cases m) (auto simp: andthen_def split: sum.splits prod.splits, metis fst_conv)

lemma skriv_gamafil_events:
  "\<exists>evs. fst (skriv_gamafil py output d obs) = Open output # evs \<and> writes_only output evs"
proof -
  let ?rest = "andthen (emit (xml_preamble output)) (\<lambda>_.
     andthen (emit (xml_description output ''bla bla bla'')) (\<lambda>_.
     andthen (emit (xml_fixed_points output)) (\<lambda>_.
     andthen (skriv_fixed py output d) (\<lambda>_.
     andthen (emit (xml_adjusted_points output)) (\<lambda>_.
     andthen (skriv_adjusted py output d) (\<lambda>_.
     andthen (emit (xml_observations output)) (\<lambda>_.
     andthen (skriv_obs py output (obs_feature py d obs)) (\<lambda>_.
     emit (xml_postamble output)))))))))"
  have w: "writes_only output (fst ?rest)"
    by (intro andthen_fst_writes skriv_fixed_writes skriv_adjusted_writes skriv_obs_writes)
       (simp_all add: emit_def xml_preamble_def xml_description_def xml_fixed_points_def
          xml_adjusted_points_def xml_observations_def xml_postamble_def)
  have "skriv_gamafil py output d obs = (Open output # fst ?rest, snd ?rest)"
    unfolding skriv_gamafil_def by (subst andthen_emit) simp
  with w show ?thesis by simp
qed

lemma eksporter_cases:
  "eksporter py db output obs punkter koteid =
     (case eksporter_punktinfo py db koteid (sorted_list_of_fset punkter) [] of
        (e0, Inl e) \<Rightarrow> (e0, Inl e)
      | (e0, Inr d) \<Rightarrow>
          (case py_list (punkt_feature d) of
             Inl e \<Rightarrow> (e0 @ [Open ''punkter.geojson''], Inl e)
           | Inr pf \<Rightarrow>
               (case py_list (obs_feature py d obs) of
                  Inl e \<Rightarrow>
                    (e0 @ [Open ''punkter.geojson'', Dump ''punkter.geojson'' (PunktCollection pf),
                           Open ''observationer.geojson''], Inl e)
                | Inr ofs \<Rightarrow>
                    (e0 @ [Open ''punkter.geojson'', Dump ''punkter.geojson'' (PunktCollection pf),
                           Open ''observationer.geojson'',
                           Dump ''observationer.geojson'' (ObsCollection ofs)]
                        @ fst (skriv_gamafil py output d obs),
                     snd (skriv_gamafil py output d obs)))))"
  by (simp add: eksporter_def skriv_punktfil_def skriv_obsfil_def andthen_def emit_def lift_def
      split: prod.splits sum.splits)

text \<open>
  Claim C10. In every run of \<open>eksporter\<close>, whatever its outcome: the files opened are,
  in this order and as far as the run gets, \<open>punkter.geojson\<close>,
  \<open>observationer.geojson\<close> and the file named by \<open>output\<close>; the point collection is
  dumped to \<open>punkter.geojson\<close> and the observation collection to
  \<open>observationer.geojson\<close>, and nothing else is dumped; every text is written to
  \<open>output\<close>; and what is dumped where is the same for any other \<open>output\<close>. A run
  that returns normally has opened all three files and dumped both collections: the
  features of the resolved points and those of the observations.
\<close>

theorem output_paths:
  fixes py :: "'f python"
  defines "p1 \<equiv> ''punkter.geojson''" and "p2 \<equiv> ''observationer.geojson''"
  shows "prefix (opened (fst (eksporter py db output obs punkter koteid))) [p1, p2, output]
       \<and> (\<exists>pf ofs. prefix (dumped (fst (eksporter py db output obs punkter koteid)))
                         [(p1, PunktCollection pf), (p2, ObsCollection ofs)])
       \<and> set (written_to (fst (eksporter py db output obs punkter koteid))) \<subseteq> {output}
       \<and> dumped (fst (eksporter py db output' obs punkter koteid))
           = dumped (fst (eksporter py db output obs punkter koteid))
       \<and> (snd (eksporter py db output obs punkter koteid) = Inr () \<longrightarrow>
            (\<exists>punktinfo pf ofs.
               snd (eksporter_punktinfo py db koteid (sorted_list_of_fset punkter) []) = Inr punktinfo
             \<and> py_list (punkt_feature punktinfo) = Inr pf
             \<and> py_list (obs_feature py punktinfo obs) = Inr ofs
             \<and> opened (fst (eksporter py db output obs punkter koteid)) = [p1, p2, output]
             \<and> dumped (fst (eksporter py db output obs punkter koteid))
                 = [(p1, PunktCollection pf), (p2, ObsCollection ofs)]))"
proof -
  obtain e0 r0 where r: "eksporter_punktinfo py db koteid (sorted_list_of_fset punkter) [] = (e0, r0)"
    by (cases "eksporter_punktinfo py db koteid (sorted_list_of_fset punkter) []")
  have q: "quiet e0"
    using eksporter_punktinfo_quiet [of py db koteid "sorted_list_of_fset punkter" "[]"] r by simp
  then have q': "opened e0 = []" "dumped e0 = []" "written_to e0 = []"
    by (simp_all add: quiet_def)
  show ?thesis
  proof (cases r0)
    case (Inl e)
    with r q' show ?thesis by (simp add: eksporter_cases)
  next
    case d: (Inr d)
    show ?thesis
    proof (cases "py_list (punkt_feature d)")
      case (Inl e)
      with r d q' show ?thesis by (simp add: eksporter_cases p1_def)
    next
      case pf: (Inr pf)
      show ?thesis
      proof (cases "py_list (obs_feature py d obs)")
        case (Inl e)
        with r d pf q' show ?thesis by (auto simp: eksporter_cases p1_def p2_def)
      next
        case ofs: (Inr ofs)
        obtain g where g: "fst (skriv_gamafil py output d obs) = Open output # g"
          "writes_only output g"
          using skriv_gamafil_events [of py "output" d obs] by blast
        obtain g' where g': "fst (skriv_gamafil py output' d obs) = Open output' # g'"
          "writes_only output' g'"
          using skriv_gamafil_events [of py "output'" d obs] by blast
        from r d pf ofs q' g g' show ?thesis
          by (auto simp: eksporter_cases p1_def p2_def writes_only_def)
      qed
    qed
  qed
qed

lemma update_fresh: "k \<notin> fst ` set al \<Longrightarrow> AList.update k v al = al @ [(k, v)]"
  by (induction al) auto

lemma tuples_dict_snoc:
  "k \<notin> fst ` set pts \<Longrightarrow>
     AList.update k (Some p) (tuples_dict pts) = tuples_dict (pts @ [(k, p)])"
proof -
  assume "k \<notin> fst ` set pts"
  then have "k \<notin> fst ` set (tuples_dict pts)"
    by (force simp: tuples_dict_def)
  then show ?thesis
    by (simp add: update_fresh) (simp add: tuples_dict_def)
qed

lemma eksporter_punktinfo_Inr:
  "eksporter_punktinfo py db koteid idents (tuples_dict pts0) = (evs, Inr d) \<Longrightarrow>
   distinct (map fst pts0 @ idents) \<Longrightarrow>
     \<exists>pts. d = tuples_dict (pts0 @ pts) \<and> map fst pts = idents"
proof (induction idents arbitrary: pts0 evs)
  case Nil
  then show ?case by (simp add: return_def)
next
  case (Cons i rest)
  obtain e1 r1 where 1: "eksporter_punkt py db koteid i = (e1, r1)"
    by (cases "eksporter_punkt py db koteid i")
  with Cons.prems(1) obtain p where p: "r1 = Inr p"
    by (cases r1) auto
  from Cons.prems(2) have fresh: "i \<notin> fst ` set pts0" by auto
  obtain e2 r2 where 2:
    "eksporter_punktinfo py db koteid rest (tuples_dict (pts0 @ [(i, p)])) = (e2, r2)"
    by (cases "eksporter_punktinfo py db koteid rest (tuples_dict (pts0 @ [(i, p)]))")
  from Cons.prems(1) 1 p 2 fresh have r2: "r2 = Inr d"
    by (simp add: tuples_dict_snoc)
  from Cons.prems(2) have "distinct (map fst (pts0 @ [(i, p)]) @ rest)" by auto
  from Cons.IH [OF 2 [unfolded r2] this] obtain pts where
    "d = tuples_dict ((pts0 @ [(i, p)]) @ pts)" "map fst pts = rest" by blast
  then have "d = tuples_dict (pts0 @ (i, p) # pts) \<and> map fst ((i, p) # pts) = i # rest"
    by simp
  then show ?case by (rule exI [of _ "(i, p) # pts"])
qed

lemma distinct_sorted_list_of_fset: "distinct (sorted_list_of_fset S)"
  by (simp add: sorted_list_of_fset.rep_eq)

lemma skriv_fixed_tuples:
  "skriv_fixed py fil (tuples_dict pts)
     = (map (\<lambda>(k, lon, lat, H, sH). Write fil (point_text py True k H)) (filter er_fast pts),
        Inr ())"
  by (induction pts)
     (auto simp: tuples_dict_def er_fast_def return_def xml_point_def emit_def)

lemma skriv_adjusted_tuples:
  "skriv_adjusted py fil (tuples_dict pts)
     = (map (\<lambda>(k, lon, lat, H, sH). Write fil (point_text py False k H))
          (filter (\<lambda>kp. \<not> er_fast kp) pts),
        Inr ())"
  by (induction pts)
     (auto simp: tuples_dict_def er_fast_def return_def xml_point_def emit_def)

lemma written_point_lines:
  "written (map (\<lambda>(k, lon, lat, H, sH). Write fil (point_text py fix k H)) pts)
     = map (\<lambda>(k, lon, lat, H, sH). point_text py fix k H) pts"
  by (induction pts) auto

lemma andthen_pair: "andthen (evs, Inr a) f = (evs @ fst (f a), snd (f a))"
  by (simp add: andthen_def split: prod.splits)

lemma andthen_last:
  "andthen m (\<lambda>_. emit post) = (evs, Inr ()) \<Longrightarrow> evs = fst m @ post"
  by (cases m) (auto simp: andthen_def emit_def split: sum.splits)

lemma skriv_gamafil_tuples:
  assumes "skriv_gamafil py output (tuples_dict pts) obs = (evs, Inr ())"
  shows "written evs =
           written (xml_preamble output :: 'f event list)
         @ written (xml_description output ''bla bla bla'' :: 'f event list)
         @ written (xml_fixed_points output :: 'f event list)
         @ map (\<lambda>(k, lon, lat, H, sH). point_text py True k H) (filter er_fast pts)
         @ written (xml_adjusted_points output :: 'f event list)
         @ map (\<lambda>(k, lon, lat, H, sH). point_text py False k H)
             (filter (\<lambda>kp. \<not> er_fast kp) pts)
         @ written (xml_observations output :: 'f event list)
         @ written (fst (skriv_obs (py :: 'f python) output (obs_feature py (tuples_dict pts) obs)))
         @ written (xml_postamble output :: 'f event list)"
proof -
  let ?m = "skriv_obs py output (obs_feature py (tuples_dict pts) obs)"
  let ?pre = "[Open output] @ xml_preamble output @ xml_description output ''bla bla bla''
      @ xml_fixed_points output
      @ map (\<lambda>(k, lon, lat, H, sH). Write output (point_text py True k H)) (filter er_fast pts)
      @ xml_adjusted_points output
      @ map (\<lambda>(k, lon, lat, H, sH). Write output (point_text py False k H))
          (filter (\<lambda>kp. \<not> er_fast kp) pts)
      @ xml_observations output"
  obtain e r where t: "andthen ?m (\<lambda>_. emit (xml_postamble output)) = (e, r)"
    by (cases "andthen ?m (\<lambda>_. emit (xml_postamble output))")
  have "skriv_gamafil py output (tuples_dict pts) obs = (?pre @ e, r)"
    unfolding skriv_gamafil_def
    by (simp add: andthen_emit skriv_fixed_tuples skriv_adjusted_tuples andthen_pair t)
  with assms have e: "evs = ?pre @ e" and r: "r = Inr ()" by simp_all
  from t r have "e = fst ?m @ xml_postamble output"
    using andthen_last by blast
  with e show ?thesis
    by (simp add: written_point_lines)
qed

lemma count_list_partition:
  "count_list (map fst (filter P xs) @ map fst (filter (\<lambda>x. \<not> P x) xs)) k
     = count_list (map fst xs) k"
  by (induction xs) auto

lemma count_list_distinct: "distinct xs \<Longrightarrow> k \<in> set xs \<Longrightarrow> count_list xs k = 1"
  by (induction xs) (auto simp: count_list_0_iff)

lemma written_quiet: "written_to evs = [] \<Longrightarrow> written evs = []"
  by (induction evs rule: written.induct) simp_all

text \<open>
  Claim C5. In a run of \<open>eksporter\<close> that returns normally, let \<open>pts\<close> be the
  resolved points: one entry for each identifier of \<open>punkter\<close>, in sorted order. The
  texts written to the Gama file are: the preamble, the description, the header of the
  fixed points, one \<open>point\<close> element with \<open>fix="Z"\<close> for each entry whose identifier
  starts with \<open>G.\<close>, the header of the adjusted points, one \<open>point\<close> element with
  \<open>adj="z"\<close> for each other entry, the header of the observations, the \<open>dh\<close>
  elements, and the postamble. Every identifier of \<open>punkter\<close> occurs exactly once
  among the identifiers of the two lists of \<open>point\<close> elements.
\<close>

theorem point_sections:
  fixes py :: "'f python"
  assumes "eksporter py db output obs punkter koteid = (evs, Inr ())"
  shows \<open>\<exists>pts.
       snd (eksporter_punktinfo py db koteid (sorted_list_of_fset punkter) [])
         = Inr (tuples_dict pts)
     \<and> map fst pts = sorted_list_of_fset punkter
     \<and> written evs =
           written (xml_preamble output :: 'f event list)
         @ written (xml_description output ''bla bla bla'' :: 'f event list)
         @ written (xml_fixed_points output :: 'f event list)
         @ map (\<lambda>(k, lon, lat, H, sH).
                  ''<point fix="Z" id="'' @ k @ ''" z="'' @ py_str py H @ ''"/>'' @ nl)
             (filter er_fast pts)
         @ written (xml_adjusted_points output :: 'f event list)
         @ map (\<lambda>(k, lon, lat, H, sH).
                  ''<point adj="z" id="'' @ k @ ''" z="'' @ py_str py H @ ''"/>'' @ nl)
             (filter (\<lambda>kp. \<not> er_fast kp) pts)
         @ written (xml_observations output :: 'f event list)
         @ written (fst (skriv_obs py output (obs_feature py (tuples_dict pts) obs)))
         @ written (xml_postamble output :: 'f event list)
     \<and> (\<forall>k. k |\<in>| punkter \<longrightarrow>
            count_list (map fst (filter er_fast pts)
                        @ map fst (filter (\<lambda>kp. \<not> er_fast kp) pts)) k = 1)\<close>
proof -
  obtain e0 r0 where r: "eksporter_punktinfo py db koteid (sorted_list_of_fset punkter) [] = (e0, r0)"
    by (cases "eksporter_punktinfo py db koteid (sorted_list_of_fset punkter) []")
  have q: "quiet e0"
    using eksporter_punktinfo_quiet [of py db koteid "sorted_list_of_fset punkter" "[]"] r by simp
  then have w0: "written e0 = []"
    by (simp add: quiet_def written_quiet)
  from assms r obtain d where d: "r0 = Inr d"
    by (cases r0) (simp_all add: eksporter_cases)
  from assms r d obtain pf where pf: "py_list (punkt_feature d) = Inr pf"
    by (cases "py_list (punkt_feature d)") (simp_all add: eksporter_cases)
  from assms r d pf obtain ofs where ofs: "py_list (obs_feature py d obs) = Inr ofs"
    by (cases "py_list (obs_feature py d obs)") (simp_all add: eksporter_cases)
  obtain g rg where g: "skriv_gamafil py output d obs = (g, rg)"
    by (cases "skriv_gamafil py output d obs")
  from assms r d pf ofs g have rg: "rg = Inr ()" and evs: "written evs = written g"
    using w0 by (auto simp: eksporter_cases)
  have "eksporter_punktinfo py db koteid (sorted_list_of_fset punkter) (tuples_dict []) = (e0, Inr d)"
    using r d by (simp add: tuples_dict_def)
  from eksporter_punktinfo_Inr [OF this] obtain pts where
    pts: "d = tuples_dict pts" "map fst pts = sorted_list_of_fset punkter"
    by (auto simp: distinct_sorted_list_of_fset)
  have once: "count_list (map fst (filter er_fast pts)
                        @ map fst (filter (\<lambda>kp. \<not> er_fast kp) pts)) k = 1"
    if "k |\<in>| punkter" for k
  proof -
    have "distinct (map fst pts)" by (simp add: pts(2) distinct_sorted_list_of_fset)
    moreover have "k \<in> set (map fst pts)" using that by (simp add: pts(2))
    ultimately show ?thesis
      by (simp only: count_list_partition count_list_distinct)
  qed
  have lines: "point_text py True = (\<lambda>k H. ''<point fix=\"Z\" id=\"'' @ k @ ''\" z=\"'' @ py_str py H @ ''\"/>'' @ nl)"
              "point_text py False = (\<lambda>k H. ''<point adj=\"z\" id=\"'' @ k @ ''\" z=\"'' @ py_str py H @ ''\"/>'' @ nl)"
    by (simp_all add: point_text_def fun_eq_iff)
  from g rg pts(1) have "skriv_gamafil py output (tuples_dict pts) obs = (g, Inr ())" by simp
  from skriv_gamafil_tuples [OF this] evs r d pts once show ?thesis
    by (intro exI [of _ pts]) (simp add: lines)
qed

lemma demo_run_ok:
  "snd (eksporter demo_python demo_firedb ''ud.xml'' [''G.1 P1 x x 1000 0.5 J x 2'']
          {|''P1'', ''G.1''|} 7) = Inr ()"
  by code_simp

lemma demo_sorted: "sorted_list_of_fset {|''P1'', ''G.1''|} = [''G.1'', ''P1'']"
  by code_simp

theorem point_sections_witness:
  \<open>snd (eksporter demo_python demo_firedb ''ud.xml'' [''G.1 P1 x x 1000 0.5 J x 2'']
          {|''P1'', ''G.1''|} 7) = Inr ()
   \<and> (\<exists>pts.
         map fst pts = [''G.1'', ''P1'']
       \<and> filter er_fast pts = [pts ! 0]
       \<and> filter (\<lambda>kp. \<not> er_fast kp) pts = [pts ! 1]
       \<and> written (fst (eksporter demo_python demo_firedb ''ud.xml''
                          [''G.1 P1 x x 1000 0.5 J x 2''] {|''P1'', ''G.1''|} 7))
           = written (xml_preamble ''ud.xml'' :: string event list)
           @ written (xml_description ''ud.xml'' ''bla bla bla'' :: string event list)
           @ written (xml_fixed_points ''ud.xml'' :: string event list)
           @ map (\<lambda>(k, lon, lat, H, sH).
                    ''<point fix="Z" id="'' @ k @ ''" z="'' @ py_str demo_python H @ ''"/>'' @ nl)
               [pts ! 0]
           @ written (xml_adjusted_points ''ud.xml'' :: string event list)
           @ map (\<lambda>(k, lon, lat, H, sH).
                    ''<point adj="z" id="'' @ k @ ''" z="'' @ py_str demo_python H @ ''"/>'' @ nl)
               [pts ! 1]
           @ written (xml_observations ''ud.xml'' :: string event list)
           @ written (fst (skriv_obs demo_python ''ud.xml''
                (obs_feature demo_python (tuples_dict pts) [''G.1 P1 x x 1000 0.5 J x 2''])))
           @ written (xml_postamble ''ud.xml'' :: string event list))\<close>
proof -
  let ?E = "eksporter demo_python demo_firedb ''ud.xml'' [''G.1 P1 x x 1000 0.5 J x 2'']
              {|''P1'', ''G.1''|} 7"
  have run: "?E = (fst ?E, Inr ())"
    using demo_run_ok by (simp add: prod_eq_iff)
  from point_sections [OF run] obtain pts where
    1: "map fst pts = [''G.1'', ''P1'']" and
    2: \<open>written (fst ?E) =
           written (xml_preamble ''ud.xml'' :: string event list)
         @ written (xml_description ''ud.xml'' ''bla bla bla'' :: string event list)
         @ written (xml_fixed_points ''ud.xml'' :: string event list)
         @ map (\<lambda>(k, lon, lat, H, sH).
                  ''<point fix="Z" id="'' @ k @ ''" z="'' @ py_str demo_python H @ ''"/>'' @ nl)
             (filter er_fast pts)
         @ written (xml_adjusted_points ''ud.xml'' :: string event list)
         @ map (\<lambda>(k, lon, lat, H, sH).
                  ''<point adj="z" id="'' @ k @ ''" z="'' @ py_str demo_python H @ ''"/>'' @ nl)
             (filter (\<lambda>kp. \<not> er_fast kp) pts)
         @ written (xml_observations ''ud.xml'' :: string event list)
         @ written (fst (skriv_obs demo_python ''ud.xml''
              (obs_feature demo_python (tuples_dict pts) [''G.1 P1 x x 1000 0.5 J x 2''])))
         @ written (xml_postamble ''ud.xml'' :: string event list)\<close>
    unfolding demo_sorted by (elim exE conjE) 
  from 1 obtain a b where pts: "pts = [a, b]" "fst a = ''G.1''" "fst b = ''P1''"
    by (cases pts; cases "tl pts"; auto)
  have f: "filter er_fast pts = [pts ! 0]" "filter (\<lambda>kp. \<not> er_fast kp) pts = [pts ! 1]"
    by (simp_all add: pts er_fast_def startswith_def)
  show ?thesis
    by (intro conjI exI [of _ pts]) (rule demo_run_ok 1 f 2 [unfolded f])+
qed

theorem output_paths_witness:
  "opened (fst (eksporter demo_python demo_firedb ''ud.xml'' [''G.1 P1 x x 1000 0.5 J x 2'']
                  {|''P1'', ''G.1''|} 7))
     = [''punkter.geojson'', ''observationer.geojson'', ''ud.xml'']
   \<and> map fst (dumped (fst (eksporter demo_python demo_firedb ''ud.xml''
                 [''G.1 P1 x x 1000 0.5 J x 2''] {|''P1'', ''G.1''|} 7)))
     = [''punkter.geojson'', ''observationer.geojson'']
   \<and> set (written_to (fst (eksporter demo_python demo_firedb ''ud.xml''
                 [''G.1 P1 x x 1000 0.5 J x 2''] {|''P1'', ''G.1''|} 7))) \<subseteq> {''ud.xml''}
   \<and> dumped (fst (eksporter demo_python demo_firedb ''andet.xml''
                 [''G.1 P1 x x 1000 0.5 J x 2''] {|''P1'', ''G.1''|} 7))
     = dumped (fst (eksporter demo_python demo_firedb ''ud.xml''
                 [''G.1 P1 x x 1000 0.5 J x 2''] {|''P1'', ''G.1''|} 7))"
  using output_paths [of demo_python demo_firedb "''ud.xml''" "[''G.1 P1 x x 1000 0.5 J x 2'']"
      "{|''P1'', ''G.1''|}" 7 "''andet.xml''"] demo_run_ok
  by auto

section \<open>The end points of an observation\<close>

text \<open>
  In a run of \<open>gamaficer\<close> the dictionary has a tuple for both end points of every
  observation: the loops that keep a line add its first two tokens to \<open>punkter\<close>,
  \<open>eksporter\<close> stores a tuple for every identifier of \<open>punkter\<close> or ends with an
  exception, and \<open>obs_feature\<close> splits the line that was kept.
\<close>

lemma les_linjer_registered:
  assumes "les_linjer lines (obs0, P0) = (e, obs, P)"
    and "\<forall>ob\<in>set obs0. length (py_split ob) = 9 \<and> py_split ob ! 0 |\<in>| P0 \<and> py_split ob ! 1 |\<in>| P0"
  shows "\<forall>ob\<in>set obs. length (py_split ob) = 9 \<and> py_split ob ! 0 |\<in>| P \<and> py_split ob ! 1 |\<in>| P"
  using assms
proof (induction lines arbitrary: obs0 P0)
  case Nil
  then show ?case by simp
next
  case (Cons l ls)
  show ?case
  proof (cases l)
    case Nil
    with Cons.prems show ?thesis by simp
  next
    case (Cons c cs)
    note l = this
    show ?thesis
    proof (cases "c = CHR ''#''")
      case False
      with Cons.prems l have "les_linjer ls (obs0, P0) = (e, obs, P)" by simp
      from Cons.IH [OF this Cons.prems(2)] show ?thesis .
    next
      case True
      let ?line = "strip (lstrip ''#'' l)"
      show ?thesis
      proof (cases "length (py_split ?line) = 9")
        case False
        with Cons.prems True l show ?thesis by (simp add: Let_def)
      next
        case n: True
        let ?P = "finsert (py_split ?line ! 1) (finsert (py_split ?line ! 0) P0)"
        from Cons.prems(1) True l n
        have r: "les_linjer ls (obs0 @ [?line], ?P) = (e, obs, P)" by (simp add: Let_def)
        have "\<forall>ob\<in>set (obs0 @ [?line]).
                length (py_split ob) = 9 \<and> py_split ob ! 0 |\<in>| ?P \<and> py_split ob ! 1 |\<in>| ?P"
          using Cons.prems(2) n by auto
        from Cons.IH [OF r this] show ?thesis .
      qed
    qed
  qed
qed

lemma les_filer_registered:
  assumes "les_filer filer (obs0, P0) = (e, obs, P)"
    and "\<forall>ob\<in>set obs0. length (py_split ob) = 9 \<and> py_split ob ! 0 |\<in>| P0 \<and> py_split ob ! 1 |\<in>| P0"
  shows "\<forall>ob\<in>set obs. length (py_split ob) = 9 \<and> py_split ob ! 0 |\<in>| P \<and> py_split ob ! 1 |\<in>| P"
  using assms
proof (induction filer arbitrary: obs0 P0)
  case Nil
  then show ?case by simp
next
  case (Cons fil rest)
  obtain e1 obs1 P1 where 1: "les_linjer (linjer fil) (obs0, P0) = (e1, obs1, P1)"
    by (metis prod_cases3)
  have i1: "\<forall>ob\<in>set obs1. length (py_split ob) = 9 \<and> py_split ob ! 0 |\<in>| P1 \<and> py_split ob ! 1 |\<in>| P1"
    using les_linjer_registered [OF 1 Cons.prems(2)] .
  show ?case
  proof (cases e1)
    case None
    with Cons.prems(1) 1 have "les_filer rest (obs1, P1) = (e, obs, P)" by simp
    from Cons.IH [OF this i1] show ?thesis .
  next
    case (Some x)
    with Cons.prems(1) 1 have "obs = obs1" "P = P1" by simp_all
    with i1 show ?thesis by simp
  qed
qed

lemma map_of_tuples_dict:
  "k \<in> set (map fst pts) \<Longrightarrow> \<exists>p. map_of (tuples_dict pts) k = Some (Some p)"
  by (induction pts) (auto simp: tuples_dict_def)

lemma run_endpoints_registered:
  assumes "les_filer filnavne ([], {||}) = (e, observationer, punkter)"
    and "eksporter_punktinfo py db koteid (sorted_list_of_fset punkter) [] = (evs, Inr punktinfo)"
    and "obs \<in> set observationer"
  shows "length (py_split obs) = 9
       \<and> (\<exists>a. map_of punktinfo (py_split obs ! 0) = Some (Some a))
       \<and> (\<exists>b. map_of punktinfo (py_split obs ! 1) = Some (Some b))"
proof -
  have "\<forall>ob\<in>set observationer.
          length (py_split ob) = 9 \<and> py_split ob ! 0 |\<in>| punkter \<and> py_split ob ! 1 |\<in>| punkter"
    using les_filer_registered [OF assms(1)] by simp
  with assms(3) have ob: "length (py_split obs) = 9" "py_split obs ! 0 |\<in>| punkter"
    "py_split obs ! 1 |\<in>| punkter" by auto
  have "eksporter_punktinfo py db koteid (sorted_list_of_fset punkter) (tuples_dict []) = (evs, Inr punktinfo)"
    using assms(2) by (simp add: tuples_dict_def)
  from eksporter_punktinfo_Inr [OF this] obtain pts where
    pts: "punktinfo = tuples_dict pts" "map fst pts = sorted_list_of_fset punkter"
    by (auto simp: distinct_sorted_list_of_fset)
  from ob pts(2) have "py_split obs ! 0 \<in> set (map fst pts)" "py_split obs ! 1 \<in> set (map fst pts)"
    by simp_all
  with ob(1) pts(1) show ?thesis
    using map_of_tuples_dict by blast
qed

text \<open>A key that the dictionary does not have ends the step with \<open>KeyError\<close>.\<close>

lemma obs_feature_trin_KeyError:
  assumes "length (py_split obs) = 9"
    and "map_of punkter (py_split obs ! 0) = None \<or> map_of punkter (py_split obs ! 1) = None"
  shows "\<exists>key. obs_feature_trin py punkter obs = Inl (KeyError key)"
  using assms by (auto simp: obs_feature_trin_def Let_def split: option.splits)




end
